theory Spec2Isabelle
  imports Main "HOL-Library.Sublist"
begin

section \<open>Python strings\<close>

text \<open>
  A Python \<open>str\<close> is a sequence of Unicode code points, and \<open>len\<close> counts code points.
  A string is therefore modelled as the list of its code points; \<open>str\<close> turns an ASCII
  literal into that list. The absent value \<open>None\<close> of an optional string is \<open>None\<close>.
\<close>

type_synonym pystr = "nat list"

definition str :: "string \<Rightarrow> pystr" where
  "str s = map of_char s"

text \<open>Comparison of two strings with \<open><=\<close>: lexicographic on code points, a proper
  prefix being smaller.\<close>

fun py_le :: "pystr \<Rightarrow> pystr \<Rightarrow> bool" where
  "py_le [] ys = True"
| "py_le (x # xs) [] = False"
| "py_le (x # xs) (y # ys) = (x < y \<or> (x = y \<and> py_le xs ys))"

text \<open>\<open>s.strip(chars)\<close>: the characters of \<open>chars\<close> are removed from both ends.\<close>

definition strip_chars :: "nat list \<Rightarrow> pystr \<Rightarrow> pystr" where
  "strip_chars cs s =
     rev (dropWhile (\<lambda>c. c \<in> set cs) (rev (dropWhile (\<lambda>c. c \<in> set cs) s)))"

text \<open>\<open>s.rsplit(sep, 1)[0]\<close> for a one-character separator: the part before the last
  occurrence of \<open>sep\<close>, and all of \<open>s\<close> when \<open>sep\<close> does not occur.\<close>

definition rsplit1_first :: "nat \<Rightarrow> pystr \<Rightarrow> pystr" where
  "rsplit1_first sep s =
     (if sep \<in> set s then rev (tl (dropWhile (\<lambda>c. c \<noteq> sep) (rev s))) else s)"

section \<open>sanitize_filename\<close>

text \<open>The character class \<open>[<>:"/\\|?*]\<close> of the first substitution, as code points:
  \<open><\<close> 60, \<open>>\<close> 62, \<open>:\<close> 58, the double quote 34, \<open>/\<close> 47, the backslash 92,
  \<open>|\<close> 124, \<open>?\<close> 63, \<open>*\<close> 42.\<close>

definition invalid_chars :: "nat list" where
  "invalid_chars = [60, 62, 58, 34, 47, 92, 124, 63, 42]"

text \<open>\<open>re.sub(r'[<>:"/\\|?*]', '', name)\<close>.\<close>

definition remove_invalid :: "pystr \<Rightarrow> pystr" where
  "remove_invalid name = filter (\<lambda>c. c \<notin> set invalid_chars) name"

text \<open>\<open>re.sub(r'\.\.', '_', name)\<close>: the matches are found from left to right and do not
  overlap; each match, two periods (46), is replaced by one underscore (95).\<close>

fun replace_dotdot :: "pystr \<Rightarrow> pystr" where
  "replace_dotdot (a # b # cs) =
     (if a = 46 \<and> b = 46 then 95 # replace_dotdot cs else a # replace_dotdot (b # cs))"
| "replace_dotdot cs = cs"

text \<open>The value of \<open>name\<close> after the two substitutions and \<open>name.strip('. ')\<close>.\<close>

definition stripped_name :: "pystr \<Rightarrow> pystr" where
  "stripped_name name = strip_chars [46, 32] (replace_dotdot (remove_invalid name))"

definition max_len :: nat where
  "max_len = 100"

text \<open>The length limit: \<open>name[:max_len].rsplit(' ', 1)[0]\<close> when \<open>name\<close> is longer than
  \<open>max_len\<close>.\<close>

definition limit_length :: "pystr \<Rightarrow> pystr" where
  "limit_length name =
     (if length name > max_len then rsplit1_first 32 (take max_len name) else name)"

definition sanitize_filename :: "pystr option \<Rightarrow> pystr" where
  "sanitize_filename name =
     (if name = None \<or> name = Some [] then str ''_unknown_game_''
      else let name' = limit_length (stripped_name (the name))
           in if name' = [] then str ''_sanitized_empty_'' else name')"

text \<open>Whether two periods stand next to each other somewhere in a string.\<close>

fun adjacent_dots :: "pystr \<Rightarrow> bool" where
  "adjacent_dots (a # b # cs) = ((a = 46 \<and> b = 46) \<or> adjacent_dots (b # cs))"
| "adjacent_dots cs = False"

text \<open>\<open>s.strip()\<close>: white space is removed from both ends. The code points for which
  \<open>str.isspace\<close> holds are listed.\<close>

definition whitespace :: "nat list" where
  "whitespace = [9, 10, 11, 12, 13, 28, 29, 30, 31, 32, 133, 160, 5760, 8192, 8193, 8194,
     8195, 8196, 8197, 8198, 8199, 8200, 8201, 8202, 8232, 8233, 8239, 8287, 12288]"

definition py_strip :: "pystr \<Rightarrow> pystr" where
  "py_strip s = strip_chars whitespace s"

text \<open>An optional string inside an f-string: \<open>None\<close> is rendered as the word \<open>None\<close>.\<close>

definition py_format :: "pystr option \<Rightarrow> pystr" where
  "py_format v = (case v of None \<Rightarrow> str ''None'' | Some s \<Rightarrow> s)"

text \<open>
  \<open>str.upper\<close> is a function of the Unicode tables, which are not part of the repository.
  The functions below take it as the parameter \<open>upper\<close>: the code points of \<open>c.upper()\<close> for
  a one-character string \<open>c\<close> (more than one for some characters). The theorems hold for
  every such function. \<open>upper_latin1\<close> is \<open>str.upper\<close> on the code points below 256 and is
  used to evaluate examples, whose titles are ASCII.
\<close>

definition upper_latin1 :: "nat \<Rightarrow> pystr" where
  "upper_latin1 c =
     (if 97 \<le> c \<and> c \<le> 122 then [c - 32]
      else if c = 181 then [924]
      else if c = 223 then [83, 83]
      else if 224 \<le> c \<and> c \<le> 254 \<and> c \<noteq> 247 then [c - 32]
      else if c = 255 then [376]
      else [c])"

section \<open>Catalog entries, destination\<close>

text \<open>
  A catalog entry is the dictionary \<open>game_info\<close>, from keys to optional strings.
  \<open>os.path.join\<close> is the one of \<open>posixpath\<close>, for two components; 47 is \<open>/\<close>.
\<close>

type_synonym game_info = "pystr \<rightharpoonup> pystr option"

definition path_join :: "pystr \<Rightarrow> pystr \<Rightarrow> pystr" where
  "path_join a b =
     (if b \<noteq> [] \<and> hd b = 47 then b
      else if a = [] \<or> last a = 47 then a @ b
      else a @ 47 # b)"

text \<open>\<open>game_info.get("title", "Unknown Title")\<close>.\<close>

definition original_title :: "game_info \<Rightarrow> pystr option" where
  "original_title game_info =
     (case game_info (str ''title'') of None \<Rightarrow> Some (str ''Unknown Title'') | Some v \<Rightarrow> v)"

text \<open>The bucket chosen in \<open>save_game_page_as_markdown\<close>, from the title of the entry.\<close>

definition target_subdir :: "(nat \<Rightarrow> pystr) \<Rightarrow> pystr option \<Rightarrow> pystr" where
  "target_subdir upper title =
     (let filename_safe_title = sanitize_filename title;
          first_char = (if filename_safe_title \<noteq> [] then upper (hd filename_safe_title)
                        else str ''_'')
      in if py_le (str ''0'') first_char \<and> py_le first_char (str ''9'') then str ''0-9''
         else if py_le (str ''A'') first_char \<and> py_le first_char (str ''Z'') then first_char
         else str ''_'')"

definition output_dir :: "(nat \<Rightarrow> pystr) \<Rightarrow> pystr \<Rightarrow> pystr option \<Rightarrow> pystr" where
  "output_dir upper base_dir title = path_join base_dir (target_subdir upper title)"

definition output_filepath :: "(nat \<Rightarrow> pystr) \<Rightarrow> pystr \<Rightarrow> pystr option \<Rightarrow> pystr" where
  "output_filepath upper base_dir title =
     path_join (output_dir upper base_dir title) (sanitize_filename title @ str ''.md'')"

text \<open>The bucket computed by the letter filter of \<open>main\<close>; \<open>None\<close> when the entry is
  skipped by \<open>continue\<close>.\<close>

definition current_category :: "(nat \<Rightarrow> pystr) \<Rightarrow> game_info \<Rightarrow> pystr option" where
  "current_category upper game_info =
     (let original_title = (case game_info (str ''title'') of
                              None \<Rightarrow> Some (str ''Unknown Title'') | Some v \<Rightarrow> v);
          filename_safe_title = sanitize_filename original_title
      in if filename_safe_title = [] then None
         else let first_char = upper (hd filename_safe_title)
              in if py_le (str ''0'') first_char \<and> py_le first_char (str ''9'')
                 then Some (str ''0-9'')
                 else if py_le (str ''A'') first_char \<and> py_le first_char (str ''Z'')
                 then Some first_char
                 else Some (str ''_''))"

definition filter_links :: "(nat \<Rightarrow> pystr) \<Rightarrow> pystr \<Rightarrow> game_info list \<Rightarrow> game_info list" where
  "filter_links upper target_letter_category all_game_links =
     filter (\<lambda>game_info. current_category upper game_info = Some target_letter_category)
       all_game_links"

section \<open>The world: file system, network, standard output and log\<close>

text \<open>
  The file system maps a path to what is there: a directory or a file with its content.
  Every effect on the file system, every request and every delay is appended to a log.
  The environment gives the outcome of each operation that can fail for outside reasons:
  the request and the parse inside \<open>fetch_html\<close>, the creation of a directory, a write, a
  removal, and which characters standard output can encode. A page is what the three XPath
  queries of \<open>save_game_page_as_markdown\<close> find in it.

  A write either succeeds, or raises \<open>IOError\<close> (\<open>OSError\<close>), or raises another exception;
  a failed write leaves nothing (\<open>None\<close>) or a file with part of the content.
  \<open>error_text\<close> is the text of the exception that a message of the call formats (\<open>{e}\<close>);
  a call formats at most one.
\<close>

datatype node = Dir | File pystr

datatype event =
    MakeDirs pystr
  | Exists pystr
  | Fetch "pystr option"
  | Write pystr pystr
  | Remove pystr
  | Sleep

datatype exn = KeyError pystr | OSError | UnicodeEncodeError

datatype write_result = WriteOk | WriteIOError "pystr option" | WriteOtherError "pystr option"

record page =
  heading_texts :: "pystr list"
  parser_output :: "pystr list"
  content_text :: "pystr list"

datatype fetch_result = Fetched page | RequestError | ParseError

record env =
  get_page :: "pystr option \<Rightarrow> fetch_result"
  error_text :: pystr
  stdout_encodes :: "nat \<Rightarrow> bool"
  markdownify :: "pystr \<Rightarrow> pystr"
  mkdir_fails :: "pystr \<Rightarrow> bool"
  write_outcome :: "pystr \<Rightarrow> pystr \<Rightarrow> write_result"
  remove_fails :: "pystr \<Rightarrow> bool"

record world =
  fs :: "pystr \<rightharpoonup> node"
  log :: "event list"

text \<open>
  \<open>print(text)\<close> raises \<open>UnicodeEncodeError\<close> when standard output cannot encode a character
  of the text. Every encoding of standard output encodes the ASCII characters; for the
  other code points the environment decides.
\<close>

definition print_raises :: "env \<Rightarrow> pystr \<Rightarrow> bool" where
  "print_raises env text = list_ex (\<lambda>c. 128 \<le> c \<and> \<not> stdout_encodes env c) text"

definition emit :: "event \<Rightarrow> world \<Rightarrow> world" where
  "emit e w = w\<lparr>log := log w @ [e]\<rparr>"

text \<open>\<open>os.makedirs(d, exist_ok=True)\<close>: nothing to do when \<open>d\<close> is a directory; an error when
  \<open>d\<close> is a file or the directory cannot be created. The parents of \<open>d\<close> are not tracked.\<close>

definition makedirs :: "env \<Rightarrow> pystr \<Rightarrow> world \<Rightarrow> exn + world" where
  "makedirs env d w =
     (let w1 = emit (MakeDirs d) w
      in case fs w d of
           Some Dir \<Rightarrow> Inr w1
         | Some (File c) \<Rightarrow> Inl OSError
         | None \<Rightarrow> if mkdir_fails env d then Inl OSError
                   else Inr (w1\<lparr>fs := (fs w1)(d \<mapsto> Dir)\<rparr>))"

text \<open>\<open>os.remove(p)\<close> inside \<open>try ... except OSError: pass\<close>: the file is removed when
  there is one and the removal does not fail; nothing is raised.\<close>

definition remove_quietly :: "env \<Rightarrow> pystr \<Rightarrow> world \<Rightarrow> world" where
  "remove_quietly env p w =
     (let w1 = emit (Remove p) w
      in case fs w p of
           Some (File c) \<Rightarrow> if remove_fails env p then w1 else w1\<lparr>fs := (fs w1)(p := None)\<rparr>
         | _ \<Rightarrow> w1)"

section \<open>fetch_html\<close>

text \<open>
  The page, \<open>None\<close> after a request error or a parse error that was reported, or the
  \<open>UnicodeEncodeError\<close> of the report: a \<open>print\<close> inside an \<open>except\<close> clause is not guarded.
\<close>

definition fetch_html :: "env \<Rightarrow> pystr option \<Rightarrow> exn + page option" where
  "fetch_html env url =
     (case get_page env url of
        Fetched tree \<Rightarrow> Inr (Some tree)
      | RequestError \<Rightarrow>
          if print_raises env (str ''Error fetching '' @ py_format url @ str '': '' @ error_text env)
          then Inl UnicodeEncodeError else Inr None
      | ParseError \<Rightarrow>
          if print_raises env
               (str ''Error parsing HTML from '' @ py_format url @ str '': '' @ error_text env)
          then Inl UnicodeEncodeError else Inr None)"

section \<open>save_game_page_as_markdown\<close>

text \<open>
  The result is the pair \<open>(success, request_made)\<close>, or the exception that leaves the
  function: \<open>KeyError\<close> from \<open>game_info["url"]\<close>, \<open>OSError\<close> from \<open>os.makedirs\<close>,
  \<open>UnicodeEncodeError\<close> from a \<open>print\<close>. The messages are given in full; 39 is the
  apostrophe and 10 the line feed.
\<close>

definition skipping_message :: "pystr option \<Rightarrow> pystr option \<Rightarrow> pystr \<Rightarrow> pystr" where
  "skipping_message title game_url path =
     str ''Skipping '' @ [39] @ py_format title @ [39] @ str '' ('' @ py_format game_url
       @ str ''), Markdown file already exists at '' @ path @ str ''.''"

definition processing_message :: "pystr option \<Rightarrow> pystr option \<Rightarrow> pystr" where
  "processing_message title game_url =
     str ''Processing '' @ [39] @ py_format title @ [39] @ str '' ('' @ py_format game_url
       @ str '')...''"

definition fetch_error_message :: "pystr option \<Rightarrow> pystr" where
  "fetch_error_message title = str ''Skipping '' @ py_format title @ str '' due to fetch error.''"

definition actual_title_message :: "pystr \<Rightarrow> pystr" where
  "actual_title_message page_title = str ''Actual page title: '' @ [39] @ page_title @ [39]"

definition no_content_message :: "pystr \<Rightarrow> pystr" where
  "no_content_message page_title =
     str ''Warning: Could not find main content area for '' @ [39] @ page_title @ [39]
       @ str ''. Saving empty file.''"

definition saved_message :: "pystr \<Rightarrow> pystr" where
  "saved_message path = str ''Saved: '' @ path"

definition io_error_message :: "env \<Rightarrow> pystr \<Rightarrow> pystr" where
  "io_error_message env path = str ''Error saving file '' @ path @ str '': '' @ error_text env"

definition unexpected_error_message :: "env \<Rightarrow> pystr \<Rightarrow> pystr" where
  "unexpected_error_message env path =
     str ''An unexpected error occurred during file write for '' @ path @ str '': ''
       @ error_text env"

text \<open>The title found on the page, or else the title of the entry.\<close>

definition page_title_of :: "pystr option \<Rightarrow> page \<Rightarrow> pystr" where
  "page_title_of title tree =
     (case heading_texts tree of t # ts \<Rightarrow> py_strip t | [] \<Rightarrow> py_format title)"

definition content_elements :: "page \<Rightarrow> pystr list" where
  "content_elements tree =
     (if parser_output tree = [] then content_text tree else parser_output tree)"

definition markdown_of :: "env \<Rightarrow> pystr option \<Rightarrow> page \<Rightarrow> pystr" where
  "markdown_of env title tree =
     (case content_elements tree of
        c # cs \<Rightarrow> markdownify env c
      | [] \<Rightarrow> str ''# '' @ page_title_of title tree @ [10, 10]
                @ str ''Content could not be extracted.'')"

text \<open>The handler \<open>except IOError\<close>: the message, then the removal.\<close>

definition io_error_handler :: "env \<Rightarrow> pystr \<Rightarrow> world \<Rightarrow> (exn + bool \<times> bool) \<times> world" where
  "io_error_handler env path w =
     (if print_raises env (io_error_message env path) then (Inl UnicodeEncodeError, w)
      else (Inr (False, True), remove_quietly env path w))"

text \<open>The handler \<open>except Exception\<close>: the message only.\<close>

definition other_error_handler :: "env \<Rightarrow> pystr \<Rightarrow> world \<Rightarrow> (exn + bool \<times> bool) \<times> world" where
  "other_error_handler env path w =
     (if print_raises env (unexpected_error_message env path) then (Inl UnicodeEncodeError, w)
      else (Inr (False, True), w))"

text \<open>The \<open>try\<close> statement that saves the file. The message \<open>Saved\<close> is printed inside it,
  so its \<open>UnicodeEncodeError\<close> is caught by \<open>except Exception\<close>.\<close>

definition save_markdown :: "env \<Rightarrow> pystr \<Rightarrow> pystr \<Rightarrow> world \<Rightarrow> (exn + bool \<times> bool) \<times> world" where
  "save_markdown env path markdown_content w =
     (let w1 = emit (Write path markdown_content) w
      in case write_outcome env path markdown_content of
           WriteOk \<Rightarrow>
             let w2 = w1\<lparr>fs := (fs w1)(path \<mapsto> File markdown_content)\<rparr>
             in if print_raises env (saved_message path) then other_error_handler env path w2
                else (Inr (True, True), w2)
         | WriteIOError left \<Rightarrow>
             io_error_handler env path (w1\<lparr>fs := (fs w1)(path := map_option File left)\<rparr>)
         | WriteOtherError left \<Rightarrow>
             other_error_handler env path (w1\<lparr>fs := (fs w1)(path := map_option File left)\<rparr>))"

text \<open>What follows a successful fetch: the title message, the conversion, the write.\<close>

definition convert_and_save ::
  "env \<Rightarrow> pystr option \<Rightarrow> pystr \<Rightarrow> page \<Rightarrow> world \<Rightarrow> (exn + bool \<times> bool) \<times> world" where
  "convert_and_save env title path tree w =
     (if print_raises env (actual_title_message (page_title_of title tree))
      then (Inl UnicodeEncodeError, w)
      else if content_elements tree = []
              \<and> print_raises env (no_content_message (page_title_of title tree))
      then (Inl UnicodeEncodeError, w)
      else save_markdown env path (markdown_of env title tree) w)"

definition save_game_page_as_markdown ::
  "(nat \<Rightarrow> pystr) \<Rightarrow> env \<Rightarrow> game_info \<Rightarrow> pystr \<Rightarrow> world \<Rightarrow> (exn + bool \<times> bool) \<times> world" where
  "save_game_page_as_markdown upper env game_info base_dir w =
     (case game_info (str ''url'') of
        None \<Rightarrow> (Inl (KeyError (str ''url'')), w)
      | Some game_url \<Rightarrow>
          let title = original_title game_info;
              dir = output_dir upper base_dir title;
              path = output_filepath upper base_dir title
          in case makedirs env dir w of
               Inl e \<Rightarrow> (Inl e, emit (MakeDirs dir) w)
             | Inr w1 \<Rightarrow>
                 let w2 = emit (Exists path) w1
                 in if fs w2 path \<noteq> None
                    then if print_raises env (skipping_message title game_url path)
                         then (Inl UnicodeEncodeError, w2)
                         else (Inr (True, False), w2)
                    else if print_raises env (processing_message title game_url)
                    then (Inl UnicodeEncodeError, w2)
                    else let w3 = emit (Fetch game_url) w2
                         in case fetch_html env game_url of
                              Inl e \<Rightarrow> (Inl e, w3)
                            | Inr None \<Rightarrow>
                                if print_raises env (fetch_error_message title)
                                then (Inl UnicodeEncodeError, w3)
                                else (Inr (False, True), w3)
                            | Inr (Some tree) \<Rightarrow> convert_and_save env title path tree w3)"

section \<open>The loop of main\<close>

text \<open>
  The loop over the entries, from entry \<open>i\<close> on. \<open>envs i\<close> is the environment while entry
  \<open>i\<close> is processed. The counters are \<open>(processed_count, error_count)\<close>. The delay is the
  event \<open>Sleep\<close>; its length, a float, is not modelled. An exception that leaves
  \<open>save_game_page_as_markdown\<close> leaves the loop. The messages of the loop itself are ASCII
  text, which standard output encodes.
\<close>

fun process_games_from ::
  "(nat \<Rightarrow> pystr) \<Rightarrow> (nat \<Rightarrow> env) \<Rightarrow> pystr \<Rightarrow> nat \<Rightarrow> nat \<Rightarrow> game_info list \<Rightarrow> nat \<times> nat \<Rightarrow> world
     \<Rightarrow> (exn + nat \<times> nat) \<times> world" where
  "process_games_from upper envs base_dir total_games i [] counts w = (Inr counts, w)"
| "process_games_from upper envs base_dir total_games i (game_info # rest) counts w =
     (case save_game_page_as_markdown upper (envs i) game_info base_dir w of
        (Inl e, w1) \<Rightarrow> (Inl e, w1)
      | (Inr (success, request_made), w1) \<Rightarrow>
          let counts1 = (if success then (fst counts + 1, snd counts)
                         else (fst counts, snd counts + 1));
              w2 = (if request_made \<and> int i < int total_games - 1 then emit Sleep w1 else w1)
          in process_games_from upper envs base_dir total_games (i + 1) rest counts1 w2)"

text \<open>The loop as \<open>main\<close> starts it: both counters at 0, \<open>total_games\<close> the number of
  entries, the first index 0.\<close>

definition process_games ::
  "(nat \<Rightarrow> pystr) \<Rightarrow> (nat \<Rightarrow> env) \<Rightarrow> pystr \<Rightarrow> game_info list \<Rightarrow> world
     \<Rightarrow> (exn + nat \<times> nat) \<times> world" where
  "process_games upper envs base_dir game_links_to_process w =
     process_games_from upper envs base_dir (length game_links_to_process) 0
       game_links_to_process (0, 0) w"

section \<open>Observations on a log\<close>

text \<open>The events that a run appended to the log of the world it started from.\<close>

definition new_events :: "world \<Rightarrow> world \<Rightarrow> event list" where
  "new_events w w' = drop (length (log w)) (log w')"

fun is_fetch :: "event \<Rightarrow> bool" where
  "is_fetch (Fetch u) = True"
| "is_fetch e = False"

fun is_sleep :: "event \<Rightarrow> bool" where
  "is_sleep Sleep = True"
| "is_sleep e = False"

text \<open>The paths of the files that the events test, write or remove.\<close>

fun file_paths :: "event list \<Rightarrow> pystr list" where
  "file_paths [] = []"
| "file_paths (Exists p # es) = p # file_paths es"
| "file_paths (Write p c # es) = p # file_paths es"
| "file_paths (Remove p # es) = p # file_paths es"
| "file_paths (e # es) = file_paths es"

text \<open>Whether a fetch occurs before the first existence test of the events.\<close>

fun fetch_before_check :: "event list \<Rightarrow> bool" where
  "fetch_before_check [] = False"
| "fetch_before_check (Fetch u # es) = True"
| "fetch_before_check (Exists p # es) = False"
| "fetch_before_check (e # es) = fetch_before_check es"

section \<open>Preconditions and example inputs\<close>

text \<open>Whether \<open>os.makedirs(d, exist_ok=True)\<close> goes through: \<open>d\<close> is a directory already, or
  is absent and can be created.\<close>

definition makedirs_ok :: "env \<Rightarrow> world \<Rightarrow> pystr \<Rightarrow> bool" where
  "makedirs_ok env w d = (fs w d = Some Dir \<or> (fs w d = None \<and> \<not> mkdir_fails env d))"

text \<open>Example inputs: a catalog entry with a title, the URL of its page, a fetched page with an
  on-page heading, an environment that answers every fetch and every write the same way
  and whose standard output encodes every character, an empty world, and a world that
  holds one directory with one file.\<close>

definition example_entry :: "string \<Rightarrow> game_info" where
  "example_entry title =
     [str ''url'' \<mapsto> Some (str ''https://beforeiplay.com/index.php?title='' @ str title),
      str ''title'' \<mapsto> Some (str title)]"

definition example_url :: "string \<Rightarrow> pystr option" where
  "example_url title = Some (str ''https://beforeiplay.com/index.php?title='' @ str title)"

definition example_page :: "string \<Rightarrow> page" where
  "example_page heading =
     \<lparr>heading_texts = [str heading], parser_output = [str ''<p>Hello</p>''],
      content_text = []\<rparr>"

definition example_env :: "page option \<Rightarrow> write_result \<Rightarrow> env" where
  "example_env fetched written =
     \<lparr>get_page = (\<lambda>u. case fetched of None \<Rightarrow> RequestError | Some tree \<Rightarrow> Fetched tree),
      error_text = str ''error'', stdout_encodes = (\<lambda>c. True),
      markdownify = (\<lambda>h. str ''Hello''),
      mkdir_fails = (\<lambda>d. False), write_outcome = (\<lambda>p c. written),
      remove_fails = (\<lambda>p. False)\<rparr>"

definition empty_world :: world where
  "empty_world = \<lparr>fs = Map.empty, log = []\<rparr>"

definition world_with_file :: "string \<Rightarrow> string \<Rightarrow> world" where
  "world_with_file dir path =
     \<lparr>fs = [str dir \<mapsto> Dir, str path \<mapsto> File (str ''old'')], log = []\<rparr>"

text \<open>An entry with another URL.\<close>

definition example_entry_other_url :: "string \<Rightarrow> game_info" where
  "example_entry_other_url title =
     [str ''url'' \<mapsto> Some (str ''https://beforeiplay.com/index.php?curid=7''),
      str ''title'' \<mapsto> Some (str title)]"

text \<open>A run over three entries: every fetch and write succeeds, and the world at the start
  holds \<open>out/B/Bar.md\<close>. The worlds after the first, second and third entry.\<close>

definition example_envs :: "nat \<Rightarrow> env" where
  "example_envs i = example_env (Some (example_page ''Game'')) WriteOk"

definition example_world0 :: world where
  "example_world0 = world_with_file ''out/B'' ''out/B/Bar.md''"

definition example_world1 :: world where
  "example_world1 =
     snd (save_game_page_as_markdown upper_latin1 (example_envs 0) (example_entry ''Foo'')
            (str ''out'') example_world0)"

definition example_world2 :: world where
  "example_world2 =
     snd (save_game_page_as_markdown upper_latin1 (example_envs 1) (example_entry ''Bar'')
            (str ''out'') (emit Sleep example_world1))"

definition example_world3 :: world where
  "example_world3 =
     snd (save_game_page_as_markdown upper_latin1 (example_envs 2) (example_entry ''Baz'')
            (str ''out'') example_world2)"

section \<open>Properties of the string operations\<close>

lemmas sanitize_defs = sanitize_filename_def str_def stripped_name_def limit_length_def
  max_len_def strip_chars_def remove_invalid_def invalid_chars_def rsplit1_first_def

lemma strip_chars_sublist: "sublist (strip_chars cs s) s"
proof -
  let ?P = "\<lambda>c. c \<in> set cs"
  let ?m = "dropWhile ?P s"
  have "rev ?m = takeWhile ?P (rev ?m) @ dropWhile ?P (rev ?m)" by simp
  then have "?m = rev (dropWhile ?P (rev ?m)) @ rev (takeWhile ?P (rev ?m))"
    by (metis rev_append rev_rev_ident)
  then have "s = takeWhile ?P s @ strip_chars cs s @ rev (takeWhile ?P (rev ?m))"
    unfolding strip_chars_def by (metis takeWhile_dropWhile_id)
  then show ?thesis unfolding sublist_def by blast
qed

lemma strip_chars_hd: "strip_chars cs s \<noteq> [] \<Longrightarrow> hd (strip_chars cs s) \<notin> set cs"
proof -
  let ?P = "\<lambda>c. c \<in> set cs"
  let ?m = "dropWhile ?P s"
  assume ne: "strip_chars cs s \<noteq> []"
  have pre: "prefix (strip_chars cs s) ?m"
  proof -
    have "rev ?m = takeWhile ?P (rev ?m) @ dropWhile ?P (rev ?m)" by simp
    then have "?m = rev (dropWhile ?P (rev ?m)) @ rev (takeWhile ?P (rev ?m))"
      by (metis rev_append rev_rev_ident)
    then show ?thesis unfolding strip_chars_def prefix_def by blast
  qed
  then have "?m \<noteq> []" using ne by (metis prefix_bot.extremum_uniqueI)
  then have "\<not> ?P (hd ?m)" by (rule hd_dropWhile)
  moreover have "hd (strip_chars cs s) = hd ?m" using pre ne
    by (auto simp: prefix_def)
  ultimately show ?thesis by simp
qed

lemma rsplit1_first_prefix: "prefix (rsplit1_first sep s) s"
proof (cases "sep \<in> set s")
  case False then show ?thesis by (simp add: rsplit1_first_def)
next
  case True
  then obtain a b where s: "s = a @ sep # b" and nb: "sep \<notin> set b"
    by (meson split_list_last)
  have "dropWhile (\<lambda>c. c \<noteq> sep) (rev b @ sep # rev a) = sep # rev a"
    using nb by (subst dropWhile_append2) auto
  then have "rsplit1_first sep s = a" using True s by (simp add: rsplit1_first_def)
  then show ?thesis using s by simp
qed

lemma rsplit1_first_last:
  assumes "sep \<in> set s"
  shows "\<exists>i<length s. s ! i = sep \<and> (\<forall>j. i < j \<and> j < length s \<longrightarrow> s ! j \<noteq> sep)
           \<and> rsplit1_first sep s = take i s"
proof -
  from assms obtain a b where s: "s = a @ sep # b" and nb: "sep \<notin> set b"
    by (meson split_list_last)
  have "dropWhile (\<lambda>c. c \<noteq> sep) (rev b @ sep # rev a) = sep # rev a"
    using nb by (subst dropWhile_append2) auto
  then have r: "rsplit1_first sep s = a" using assms s by (simp add: rsplit1_first_def)
  have "\<forall>j. length a < j \<and> j < length s \<longrightarrow> s ! j \<noteq> sep"
  proof (intro allI impI)
    fix j assume j: "length a < j \<and> j < length s"
    then have "s ! j = b ! (j - length a - 1)" using s
      by (simp add: nth_append nth_Cons')
    moreover have "j - length a - 1 < length b" using j s by auto
    ultimately show "s ! j \<noteq> sep" using nb by (metis nth_mem)
  qed
  then show ?thesis using s r by (intro exI[of _ "length a"]) simp
qed

lemma adjacent_dots_sublist: "adjacent_dots s \<longleftrightarrow> sublist [46, 46] s"
proof (induction s rule: adjacent_dots.induct)
  case (1 a b cs)
  then show ?case by (auto simp: sublist_Cons_right)
qed (auto simp: sublist_Cons_right)

lemma replace_dotdot_hd:
  "replace_dotdot s \<noteq> [] \<Longrightarrow> hd (replace_dotdot s) = 46 \<Longrightarrow>
     hd s = 46 \<and> \<not> adjacent_dots (take 2 s)"
  by (induction s rule: replace_dotdot.induct) (auto split: if_splits)

lemma replace_dotdot_no_adjacent: "\<not> adjacent_dots (replace_dotdot s)"
proof (induction s rule: replace_dotdot.induct)
  case (1 a b cs)
  show ?case
  proof (cases "a = 46 \<and> b = 46")
    case True
    with 1 show ?thesis by (cases "replace_dotdot cs") auto
  next
    case False
    have "replace_dotdot (b # cs) \<noteq> []" by (cases cs) auto
    then obtain x xs where x: "replace_dotdot (b # cs) = x # xs" by (cases "replace_dotdot (b # cs)") auto
    have "x = 46 \<Longrightarrow> b = 46" using replace_dotdot_hd[of "b # cs"] x by simp
    with False 1 x show ?thesis by auto
  qed
qed auto

lemma replace_dotdot_set: "set (replace_dotdot s) \<subseteq> insert 95 (set s)"
  by (induction s rule: replace_dotdot.induct) auto

lemma stripped_name_no_dotdot: "\<not> sublist [46, 46] (stripped_name n)"
proof
  assume "sublist [46, 46] (stripped_name n)"
  then have "sublist [46, 46] (replace_dotdot (remove_invalid n))"
    unfolding stripped_name_def using strip_chars_sublist sublist_order.order_trans by blast
  then show False using replace_dotdot_no_adjacent adjacent_dots_sublist by blast
qed

lemma stripped_name_set: "set (stripped_name n) \<subseteq> insert 95 (set n - set invalid_chars)"
proof -
  have "set (stripped_name n) \<subseteq> set (replace_dotdot (remove_invalid n))"
    unfolding stripped_name_def using strip_chars_sublist set_mono_sublist by blast
  also have "\<dots> \<subseteq> insert 95 (set (remove_invalid n))" by (rule replace_dotdot_set)
  finally show ?thesis by (auto simp: remove_invalid_def)
qed

lemma limit_length_prefix: "prefix (limit_length s) s"
  unfolding limit_length_def using rsplit1_first_prefix[of 32 "take max_len s"] take_is_prefix[of max_len s]
  by (auto intro: prefix_order.order_trans)

lemma limit_length_le: "length (limit_length s) \<le> max_len"
proof (cases "length s > max_len")
  case True
  then show ?thesis unfolding limit_length_def
    using prefix_length_le[OF rsplit1_first_prefix[of 32 "take max_len s"]] by simp
next
  case False then show ?thesis by (simp add: limit_length_def)
qed

lemma stripped_name_hd: "stripped_name n \<noteq> [] \<Longrightarrow> hd (stripped_name n) \<noteq> 32"
  unfolding stripped_name_def using strip_chars_hd[of "[46, 32]"] by fastforce

lemma limit_length_nonempty:
  assumes "stripped_name n \<noteq> []"
  shows "limit_length (stripped_name n) \<noteq> []"
proof (cases "length (stripped_name n) > max_len \<and> 32 \<in> set (take max_len (stripped_name n))")
  case False
  then show ?thesis using assms by (auto simp: limit_length_def rsplit1_first_def max_len_def)
next
  case True
  let ?s = "stripped_name n"
  from True rsplit1_first_last[of 32 "take max_len ?s"]
  obtain i where i: "i < length (take max_len ?s)" "take max_len ?s ! i = 32"
     "rsplit1_first 32 (take max_len ?s) = take i (take max_len ?s)" by blast
  have "i \<noteq> 0"
  proof
    assume "i = 0"
    then have "hd ?s = 32" using i assms by (simp add: hd_conv_nth max_len_def)
    then show False using stripped_name_hd[OF assms] by simp
  qed
  then show ?thesis using i True assms by (auto simp: limit_length_def)
qed

lemma sentinel_values:
  "str ''_unknown_game_'' = [95, 117, 110, 107, 110, 111, 119, 110, 95, 103, 97, 109, 101, 95]"
  "str ''_sanitized_empty_'' = [95, 115, 97, 110, 105, 116, 105, 122, 101, 100, 95, 101, 109, 112, 116, 121, 95]"
  by (simp_all add: str_def)

section \<open>Properties of sanitize_filename\<close>

lemma sanitize_cases:
  "sanitize_filename name = str ''_unknown_game_'' \<or>
   sanitize_filename name = str ''_sanitized_empty_'' \<or>
   (\<exists>n. name = Some n \<and> sanitize_filename name = limit_length (stripped_name n)
        \<and> limit_length (stripped_name n) \<noteq> [])"
  by (cases name) (auto simp: sanitize_filename_def Let_def)

lemma sanitize_nonempty: "sanitize_filename name \<noteq> []"
  using sanitize_cases[of name] by (auto simp: sentinel_values)

lemma sanitize_length: "length (sanitize_filename name) \<le> 100"
  using sanitize_cases[of name] limit_length_le by (auto simp: sentinel_values max_len_def)

lemma sanitize_no_dotdot: "\<not> sublist [46, 46] (sanitize_filename name)"
proof -
  have a: "\<not> sublist [46, 46] (str ''_unknown_game_'')"
    by (simp add: sentinel_values flip: adjacent_dots_sublist)
  have b: "\<not> sublist [46, 46] (str ''_sanitized_empty_'')"
    by (simp add: sentinel_values flip: adjacent_dots_sublist)
  have c: "\<not> sublist [46, 46] (limit_length (stripped_name n))" for n
    using stripped_name_no_dotdot[of n] limit_length_prefix[of "stripped_name n"]
    by (meson prefix_imp_sublist sublist_order.order_trans)
  show ?thesis using sanitize_cases[of name] a b c by auto
qed

lemma sanitize_set:
  "set (sanitize_filename name) \<inter> set invalid_chars = {}"
proof -
  have c: "set (limit_length (stripped_name n)) \<inter> set invalid_chars = {}" for n
  proof -
    have "set (limit_length (stripped_name n)) \<subseteq> set (stripped_name n)"
      using limit_length_prefix set_mono_prefix by blast
    then show ?thesis using stripped_name_set[of n] by (auto simp: invalid_chars_def)
  qed
  show ?thesis using sanitize_cases[of name] c
    by (auto simp: sentinel_values invalid_chars_def)
qed

text \<open>
  C6 (traversal safety): for a title that contains \<open>../../etc/passwd\<close>, the identifier
  returned by \<open>sanitize_filename\<close> contains no \<open>..\<close> sequence and neither of the path
  separators \<open>/\<close> (47) and backslash (92).
\<close>

theorem sanitize_traversal_safe:
  assumes "sublist (str ''../../etc/passwd'') t"
  shows "\<not> sublist (str ''..'') (sanitize_filename (Some t))
       \<and> 47 \<notin> set (sanitize_filename (Some t))
       \<and> 92 \<notin> set (sanitize_filename (Some t))"
proof -
  have "str ''..'' = [46, 46]" by (simp add: str_def)
  then show ?thesis
    using sanitize_no_dotdot[of "Some t"] sanitize_set[of "Some t"]
    by (auto simp: invalid_chars_def)
qed

theorem sanitize_traversal_safe_witness:
  "sublist (str ''../../etc/passwd'') (str ''../../etc/passwd'')
   \<and> sanitize_filename (Some (str ''../../etc/passwd'')) = str ''__etcpasswd''
   \<and> \<not> sublist (str ''..'') (sanitize_filename (Some (str ''../../etc/passwd'')))
   \<and> 47 \<notin> set (sanitize_filename (Some (str ''../../etc/passwd'')))
   \<and> 92 \<notin> set (sanitize_filename (Some (str ''../../etc/passwd'')))"
proof -
  have h: "sublist (str ''../../etc/passwd'') (str ''../../etc/passwd'')" by simp
  have e: "sanitize_filename (Some (str ''../../etc/passwd'')) = str ''__etcpasswd''"
    by (simp add: sanitize_defs)
  show ?thesis using h e sanitize_traversal_safe[OF h] by blast
qed

lemma replace_dotdot_run:
  "rest = [] \<or> hd rest \<noteq> 46 \<Longrightarrow> replace_dotdot (replicate n 46 @ rest) =
     replicate (n div 2) 95 @ replicate (n mod 2) 46 @ replace_dotdot rest"
proof (induction n rule: less_induct)
  case (less n)
  consider "n = 0" | "n = 1" | m where "n = Suc (Suc m)"
    by (metis One_nat_def not0_implies_Suc)
  then show ?case
  proof cases
    case 1 then show ?thesis by simp
  next
    case 2 then show ?thesis using less.prems by (cases rest) auto
  next
    case 3
    then have "replace_dotdot (replicate n 46 @ rest) = 95 # replace_dotdot (replicate m 46 @ rest)"
      by simp
    also have "\<dots> = 95 # replicate (m div 2) 95 @ replicate (m mod 2) 46 @ replace_dotdot rest"
      using less.IH[of m] less.prems 3 by simp
    also have "\<dots> = replicate (n div 2) 95 @ replicate (n mod 2) 46 @ replace_dotdot rest"
      using 3 by simp
    finally show ?thesis .
  qed
qed

lemma replace_dotdot_Cons: "x \<noteq> 46 \<Longrightarrow> replace_dotdot (x # s) = x # replace_dotdot s"
  by (cases s) auto

lemma replace_dotdot_append:
  "pre = [] \<or> last pre \<noteq> 46 \<Longrightarrow>
     replace_dotdot (pre @ s) = replace_dotdot pre @ replace_dotdot s"
proof (induction pre rule: replace_dotdot.induct)
  case (1 a b cs)
  then show ?case by (cases "cs = []") (auto split: if_splits)
qed (auto simp: replace_dotdot_Cons)

lemma strip_chars_id:
  "s \<noteq> [] \<Longrightarrow> hd s \<notin> set cs \<Longrightarrow> last s \<notin> set cs \<Longrightarrow> strip_chars cs s = s"
proof -
  assume a: "s \<noteq> []" "hd s \<notin> set cs" "last s \<notin> set cs"
  then have 1: "dropWhile (\<lambda>c. c \<in> set cs) s = s" by (cases s) auto
  have "rev s \<noteq> []" "hd (rev s) \<notin> set cs" using a by (auto simp: hd_rev)
  then have 2: "dropWhile (\<lambda>c. c \<in> set cs) (rev s) = rev s" by (cases "rev s") auto
  show ?thesis by (simp add: strip_chars_def 1 2)
qed

text \<open>
  C7 (dot runs), as the code has it: the substitution replaces each pair of periods, found
  from left to right without overlap, by one underscore. So, for every string, a run of \<open>n\<close>
  periods that no period precedes or follows becomes \<open>n div 2\<close> underscores, followed by
  one period when \<open>n\<close> is odd. In particular a title made of an ordinary character, a run of
  \<open>n\<close> periods and another ordinary character (ordinary: outside the character class, not a
  period, not a space; at most 100 characters in all) is sanitized to the first character,
  \<open>n div 2\<close> underscores, one period when \<open>n\<close> is odd, and the last character.
\<close>

theorem dot_run_replaced_pairwise:
  "((pre = [] \<or> last pre \<noteq> 46) \<and> (rest = [] \<or> hd rest \<noteq> 46) \<longrightarrow>
      replace_dotdot (pre @ replicate n 46 @ rest) =
        replace_dotdot pre @ replicate (n div 2) 95 @ replicate (n mod 2) 46 @ replace_dotdot rest)
   \<and> (x \<notin> set invalid_chars \<and> x \<noteq> 46 \<and> x \<noteq> 32
        \<and> y \<notin> set invalid_chars \<and> y \<noteq> 46 \<and> y \<noteq> 32 \<and> n \<le> 98 \<longrightarrow>
      sanitize_filename (Some (x # replicate n 46 @ [y])) =
        x # replicate (n div 2) 95 @ replicate (n mod 2) 46 @ [y])"
proof (intro conjI impI)
  assume "(pre = [] \<or> last pre \<noteq> 46) \<and> (rest = [] \<or> hd rest \<noteq> 46)"
  then show "replace_dotdot (pre @ replicate n 46 @ rest) =
        replace_dotdot pre @ replicate (n div 2) 95 @ replicate (n mod 2) 46 @ replace_dotdot rest"
    by (simp add: replace_dotdot_append replace_dotdot_run)
next
  assume a: "x \<notin> set invalid_chars \<and> x \<noteq> 46 \<and> x \<noteq> 32
        \<and> y \<notin> set invalid_chars \<and> y \<noteq> 46 \<and> y \<noteq> 32 \<and> n \<le> 98"
  let ?r = "x # replicate (n div 2) 95 @ replicate (n mod 2) 46 @ [y]"
  have "remove_invalid (x # replicate n 46 @ [y]) = x # replicate n 46 @ [y]"
    using a by (auto simp: remove_invalid_def invalid_chars_def)
  moreover have "replace_dotdot (x # replicate n 46 @ [y]) = ?r"
    using a replace_dotdot_run[of "[y]" n] by (simp add: replace_dotdot_Cons)
  moreover have "strip_chars [46, 32] ?r = ?r"
    using a by (intro strip_chars_id) auto
  ultimately have s: "stripped_name (x # replicate n 46 @ [y]) = ?r"
    by (simp add: stripped_name_def)
  have "n div 2 + n mod 2 \<le> n" by presburger
  then have "length ?r \<le> 100" using a by simp
  then have "limit_length ?r = ?r" by (simp add: limit_length_def max_len_def)
  then show "sanitize_filename (Some (x # replicate n 46 @ [y])) = ?r"
    using s by (simp add: sanitize_filename_def)
qed

text \<open>
  The run of four periods in \<open>a....b\<close> becomes two underscores, in the substitution and in
  the identifier.
\<close>

theorem dot_run_replaced_pairwise_witness:
  "(str ''a'' = [] \<or> last (str ''a'') \<noteq> 46) \<and> (str ''b'' = [] \<or> hd (str ''b'') \<noteq> 46)
   \<and> replace_dotdot (str ''a'' @ replicate 4 46 @ str ''b'') = str ''a__b''
   \<and> 97 \<notin> set invalid_chars \<and> 98 \<notin> set invalid_chars \<and> (4::nat) \<le> 98
   \<and> sanitize_filename (Some (97 # replicate 4 46 @ [98])) = [97, 95, 95, 98]"
proof -
  have h: "97 \<notin> set invalid_chars" "98 \<notin> set invalid_chars" by (simp_all add: invalid_chars_def)
  have g: "str ''a'' = [] \<or> last (str ''a'') \<noteq> 46" "str ''b'' = [] \<or> hd (str ''b'') \<noteq> 46"
    by (simp_all add: str_def)
  have e: "(4::nat) div 2 = 2" "(4::nat) mod 2 = 0" by simp_all
  have r: "replicate 2 (95::nat) = [95, 95]" by (simp add: numeral_2_eq_2)
  have v: "replace_dotdot (str ''a'') @ [95, 95] @ replace_dotdot (str ''b'') = str ''a__b''"
    by (simp add: str_def)
  note t = dot_run_replaced_pairwise[of "str ''a''" "str ''b''" 4 97 98]
  have "replace_dotdot (str ''a'' @ replicate 4 46 @ str ''b'') = str ''a__b''"
    using t g v by (simp only: e r replicate_0 append_Nil) 
  moreover have "sanitize_filename (Some (97 # replicate 4 46 @ [98])) = [97, 95, 95, 98]"
    using t h by (simp add: e r)
  ultimately show ?thesis using h g by simp
qed

text \<open>
  C7 as stated fails: four consecutive periods yield two filler characters, not one.
\<close>

theorem dot_run_single_filler_counterexample:
  "sanitize_filename (Some (str ''a....b'')) = str ''a__b''
   \<and> sanitize_filename (Some (str ''a....b'')) \<noteq> str ''a_b''"
  by (simp add: sanitize_defs)

text \<open>
  C10: the periods and spaces are trimmed before the length limit is applied and not again
  afterwards. The title \<open>ab. \<close> followed by one hundred \<open>c\<close> (99) has 104 characters; the cut
  at the last space within the first hundred leaves \<open>ab.\<close>, which ends in a period (46).
\<close>

theorem trailing_period_after_truncation:
  "length (str ''ab. '' @ replicate 100 99) = 104
   \<and> sanitize_filename (Some (str ''ab. '' @ replicate 100 99)) = str ''ab.''
   \<and> last (sanitize_filename (Some (str ''ab. '' @ replicate 100 99))) = 46"
  by code_simp

text \<open>
  C9 as stated fails: the empty title and the absent title yield the same sentinel.
\<close>

theorem empty_and_absent_same_sentinel_counterexample:
  "sanitize_filename (Some (str '''')) = sanitize_filename None"
  by (simp add: sanitize_filename_def str_def)

text \<open>
  C9, as the code has it: the absent title and the empty title both yield the sentinel
  \<open>_unknown_game_\<close>; a non-empty title whose name is empty after the substitutions and the
  trimming yields the sentinel \<open>_sanitized_empty_\<close>, which differs from the first.
\<close>

theorem sanitize_sentinels:
  "sanitize_filename None = str ''_unknown_game_''
   \<and> sanitize_filename (Some []) = str ''_unknown_game_''
   \<and> (n \<noteq> [] \<and> stripped_name n = [] \<longrightarrow> sanitize_filename (Some n) = str ''_sanitized_empty_'')
   \<and> str ''_sanitized_empty_'' \<noteq> str ''_unknown_game_''"
  by (simp add: sanitize_filename_def limit_length_def sentinel_values)

text \<open>
  The title \<open>?.\<close> is not empty and is sanitized to nothing.
\<close>

theorem sanitize_sentinels_witness:
  "str ''?.'' \<noteq> [] \<and> stripped_name (str ''?.'') = []
   \<and> sanitize_filename (Some (str ''?.'')) = str ''_sanitized_empty_''
   \<and> sanitize_filename None = str ''_unknown_game_''
   \<and> sanitize_filename (Some []) = str ''_unknown_game_''
   \<and> str ''_sanitized_empty_'' \<noteq> str ''_unknown_game_''"
proof -
  have h: "str ''?.'' \<noteq> [] \<and> stripped_name (str ''?.'') = []"
    by (simp add: str_def stripped_name_def strip_chars_def remove_invalid_def invalid_chars_def)
  show ?thesis using h sanitize_sentinels[of "str ''?.''"] by blast
qed

lemma sanitize_truncated:
  assumes n: "n \<noteq> []" and len: "length (stripped_name n) > 100"
  shows "if 32 \<in> set (take 100 (stripped_name n))
         then \<exists>i<100. stripped_name n ! i = 32
                \<and> (\<forall>j. i < j \<and> j < 100 \<longrightarrow> stripped_name n ! j \<noteq> 32)
                \<and> sanitize_filename (Some n) = take i (stripped_name n)
         else sanitize_filename (Some n) = take 100 (stripped_name n)"
proof -
  let ?s = "stripped_name n"
  have ne: "?s \<noteq> []" using len by auto
  have san: "sanitize_filename (Some n) = rsplit1_first 32 (take 100 ?s)"
    using n len limit_length_nonempty[OF ne]
    by (simp add: sanitize_filename_def limit_length_def max_len_def)
  have l100: "length (take 100 ?s) = 100" using len by simp
  show ?thesis
  proof (cases "32 \<in> set (take 100 ?s)")
    case False
    then show ?thesis using san by (simp add: rsplit1_first_def)
  next
    case True
    from rsplit1_first_last[OF True]
    obtain i where i0: "i < length (take 100 ?s)" "take 100 ?s ! i = 32"
      "\<forall>j. i < j \<and> j < length (take 100 ?s) \<longrightarrow> take 100 ?s ! j \<noteq> 32"
      "rsplit1_first 32 (take 100 ?s) = take i (take 100 ?s)" by blast
    have i: "i < 100" using i0(1) by simp
    have "?s ! i = 32" using i0(2) i by simp
    moreover have "?s ! j \<noteq> 32" if "i < j \<and> j < 100" for j
    proof -
      have "j < length ?s" using that len by simp
      then show ?thesis using i0(3) that by simp
    qed
    moreover have "sanitize_filename (Some n) = take i ?s" using san i0(4) i by (simp add: min_def)
    ultimately show ?thesis using True i by auto
  qed
qed

text \<open>
  C8 (length bound and truncation): the identifier has at most 100 characters and is never
  empty. When the trimmed name is longer than 100 characters, the identifier is the part of
  it before the last space among its first 100 characters, and its first 100 characters
  when there is no space among them.
\<close>

theorem sanitize_length_bound:
  "length (sanitize_filename t) \<le> 100 \<and> sanitize_filename t \<noteq> []
   \<and> (\<forall>n. t = Some n \<and> n \<noteq> [] \<and> length (stripped_name n) > 100 \<longrightarrow>
        (if 32 \<in> set (take 100 (stripped_name n))
         then \<exists>i<100. stripped_name n ! i = 32
                \<and> (\<forall>j. i < j \<and> j < 100 \<longrightarrow> stripped_name n ! j \<noteq> 32)
                \<and> sanitize_filename t = take i (stripped_name n)
         else sanitize_filename t = take 100 (stripped_name n)))"
  using sanitize_length[of t] sanitize_nonempty[of t] sanitize_truncated by blast

lemma stripped_example:
  "stripped_name (str ''hello world '' @ replicate 100 120) = str ''hello world '' @ replicate 100 120"
  by code_simp

text \<open>
  The title \<open>hello world \<close> followed by one hundred \<open>x\<close> (120) is longer than 100 characters
  and has a space among the first hundred.
\<close>

theorem sanitize_length_bound_witness:
  "length (stripped_name (str ''hello world '' @ replicate 100 120)) > 100
   \<and> 32 \<in> set (take 100 (stripped_name (str ''hello world '' @ replicate 100 120)))
   \<and> length (sanitize_filename (Some (str ''hello world '' @ replicate 100 120))) \<le> 100
   \<and> sanitize_filename (Some (str ''hello world '' @ replicate 100 120)) \<noteq> []
   \<and> (\<exists>i<100. stripped_name (str ''hello world '' @ replicate 100 120) ! i = 32
        \<and> (\<forall>j. i < j \<and> j < 100 \<longrightarrow> stripped_name (str ''hello world '' @ replicate 100 120) ! j \<noteq> 32)
        \<and> sanitize_filename (Some (str ''hello world '' @ replicate 100 120))
            = take i (stripped_name (str ''hello world '' @ replicate 100 120)))"
proof -
  let ?n = "str ''hello world '' @ replicate 100 120"
  have a: "?n \<noteq> []" by (simp add: str_def)
  have b: "length (stripped_name ?n) > 100" by (subst stripped_example) (simp add: str_def)
  have c: "32 \<in> set (take 100 (stripped_name ?n))" by (subst stripped_example) (simp add: str_def)
  show ?thesis using a b c sanitize_length_bound[of "Some ?n"] by simp
qed

section \<open>Properties of save_game_page_as_markdown\<close>

lemmas world_defs = save_game_page_as_markdown_def convert_and_save_def save_markdown_def
  io_error_handler_def other_error_handler_def makedirs_def emit_def remove_quietly_def
  new_events_def

text \<open>
  C2 (bucket consistency): the bucket that the letter filter of \<open>main\<close> computes for an entry
  is the bucket that \<open>save_game_page_as_markdown\<close> stores the entry under, for every entry
  and every \<open>upper\<close>; the filter never skips an entry. Hence the filter keeps exactly the
  entries stored under the requested bucket.
\<close>

theorem bucket_consistency:
  "current_category upper game_info = Some (target_subdir upper (original_title game_info))
   \<and> set (filter_links upper category links)
       = {g \<in> set links. target_subdir upper (original_title g) = category}"
proof -
  have "current_category upper g = Some (target_subdir upper (original_title g))" for g
    using sanitize_nonempty[of "original_title g"]
    by (simp add: current_category_def target_subdir_def original_title_def Let_def)
  then show ?thesis by (auto simp: filter_links_def)
qed

lemma save_events:
  "save_game_page_as_markdown upper env game_info base_dir w = (r, w') \<Longrightarrow>
     \<exists>evs u c. log w' = log w @ evs
        \<and> prefix evs [MakeDirs (output_dir upper base_dir (original_title game_info)),
                       Exists (output_filepath upper base_dir (original_title game_info)),
                       Fetch u,
                       Write (output_filepath upper base_dir (original_title game_info)) c,
                       Remove (output_filepath upper base_dir (original_title game_info))]"
  by (auto simp: world_defs Let_def prefix_Cons
           split: option.splits node.splits sum.splits write_result.splits if_splits)

lemma prefix_run_props:
  assumes "prefix evs [MakeDirs d, Exists p, Fetch u, Write p c, Remove p]"
  shows "set (file_paths evs) \<subseteq> {p}" and "\<not> fetch_before_check evs"
    and "filter is_sleep evs = []"
  using assms by (auto simp: prefix_Cons)

lemma save_log:
  "save_game_page_as_markdown upper env game_info base_dir w = (r, w') \<Longrightarrow>
     log w' = log w @ new_events w w'"
  using save_events[of upper env game_info base_dir w r w'] by (auto simp: new_events_def)

lemma save_file_paths:
  "save_game_page_as_markdown upper env game_info base_dir w = (r, w') \<Longrightarrow>
     set (file_paths (new_events w w'))
       \<subseteq> {output_filepath upper base_dir (original_title game_info)}"
  using save_events[of upper env game_info base_dir w r w'] prefix_run_props(1)
  by (fastforce simp: new_events_def)

lemma save_check_first:
  "save_game_page_as_markdown upper env game_info base_dir w = (r, w') \<Longrightarrow>
     \<not> fetch_before_check (new_events w w')"
  using save_events[of upper env game_info base_dir w r w'] prefix_run_props(2)
  by (fastforce simp: new_events_def)

lemma save_no_sleep:
  "save_game_page_as_markdown upper env game_info base_dir w = (r, w') \<Longrightarrow>
     filter is_sleep (new_events w w') = []"
  using save_events[of upper env game_info base_dir w r w'] prefix_run_props(3)
  by (fastforce simp: new_events_def)

lemma path_join_neq: "b \<noteq> [] \<Longrightarrow> hd b \<noteq> 47 \<Longrightarrow> path_join a b \<noteq> a"
  by (auto simp: path_join_def)

lemma output_filepath_neq_dir:
  "output_filepath upper base_dir title \<noteq> output_dir upper base_dir title"
proof -
  have "hd (sanitize_filename title) \<in> set (sanitize_filename title)"
    using sanitize_nonempty by simp
  then have "hd (sanitize_filename title) \<noteq> 47"
    using sanitize_set[of title] by (auto simp: invalid_chars_def)
  then have "hd (sanitize_filename title @ str ''.md'') \<noteq> 47"
    using sanitize_nonempty[of title] by simp
  then show ?thesis unfolding output_filepath_def
    using sanitize_nonempty[of title] by (intro path_join_neq) auto
qed

lemma makedirs_succeeds:
  "makedirs_ok env w d \<Longrightarrow>
     makedirs env d w = Inr (w\<lparr>fs := (fs w)(d \<mapsto> Dir), log := log w @ [MakeDirs d]\<rparr>)"
  by (auto simp: makedirs_ok_def makedirs_def emit_def Let_def fun_upd_idem)

lemma save_when_exists:
  assumes "game_info (str ''url'') = Some u"
      and "makedirs_ok env w (output_dir upper base_dir (original_title game_info))"
      and "fs w (output_filepath upper base_dir (original_title game_info)) \<noteq> None"
  shows "save_game_page_as_markdown upper env game_info base_dir w =
           (if print_raises env
                 (skipping_message (original_title game_info) u
                    (output_filepath upper base_dir (original_title game_info)))
            then Inl UnicodeEncodeError else Inr (True, False),
            w\<lparr>fs := (fs w)(output_dir upper base_dir (original_title game_info) \<mapsto> Dir),
              log := log w @ [MakeDirs (output_dir upper base_dir (original_title game_info)),
                              Exists (output_filepath upper base_dir (original_title game_info))]\<rparr>)"
  using assms output_filepath_neq_dir[of upper base_dir "original_title game_info"]
  by (simp add: save_game_page_as_markdown_def makedirs_succeeds emit_def Let_def)

lemma save_when_fetch_fails:
  assumes "game_info (str ''url'') = Some u"
      and "makedirs_ok env w (output_dir upper base_dir (original_title game_info))"
      and "fs w (output_filepath upper base_dir (original_title game_info)) = None"
      and "\<And>t. \<not> print_raises env t"
      and "fetch_html env u = Inr None"
  shows "save_game_page_as_markdown upper env game_info base_dir w =
           (Inr (False, True),
            w\<lparr>fs := (fs w)(output_dir upper base_dir (original_title game_info) \<mapsto> Dir),
              log := log w @ [MakeDirs (output_dir upper base_dir (original_title game_info)),
                              Exists (output_filepath upper base_dir (original_title game_info)),
                              Fetch u]\<rparr>)"
  using assms output_filepath_neq_dir[of upper base_dir "original_title game_info"]
  by (simp add: save_game_page_as_markdown_def makedirs_succeeds emit_def Let_def)

lemma save_when_fetched:
  assumes "game_info (str ''url'') = Some u"
      and "makedirs_ok env w (output_dir upper base_dir (original_title game_info))"
      and "fs w (output_filepath upper base_dir (original_title game_info)) = None"
      and "\<And>t. \<not> print_raises env t"
      and "fetch_html env u = Inr (Some tree)"
  shows "save_game_page_as_markdown upper env game_info base_dir w =
     (let dir = output_dir upper base_dir (original_title game_info);
          path = output_filepath upper base_dir (original_title game_info);
          content = markdown_of env (original_title game_info) tree;
          evs = [MakeDirs dir, Exists path, Fetch u, Write path content]
      in case write_outcome env path content of
           WriteOk \<Rightarrow>
             (Inr (True, True),
              w\<lparr>fs := (fs w)(dir \<mapsto> Dir, path \<mapsto> File content), log := log w @ evs\<rparr>)
         | WriteIOError left \<Rightarrow>
             (Inr (False, True),
              w\<lparr>fs := (if remove_fails env path
                         then (fs w)(dir \<mapsto> Dir, path := map_option File left)
                         else (fs w)(dir \<mapsto> Dir, path := None)),
                log := log w @ evs @ [Remove path]\<rparr>)
         | WriteOtherError left \<Rightarrow>
             (Inr (False, True),
              w\<lparr>fs := (fs w)(dir \<mapsto> Dir, path := map_option File left), log := log w @ evs\<rparr>))"
  using assms output_filepath_neq_dir[of upper base_dir "original_title game_info"]
  by (cases "write_outcome env (output_filepath upper base_dir (original_title game_info))
                (markdown_of env (original_title game_info) tree)")
     (auto simp: save_game_page_as_markdown_def convert_and_save_def save_markdown_def
                 io_error_handler_def other_error_handler_def makedirs_succeeds emit_def Let_def
                 remove_quietly_def split: option.splits)

lemma new_events_append [simp]:
  "new_events w (w'\<lparr>log := log w @ evs\<rparr>) = evs"
  "new_events w (w'\<lparr>fs := f, log := log w @ evs\<rparr>) = evs"
  by (simp_all add: new_events_def)

text \<open>
  C1 (resumability), as the code has it. For an entry with a URL: when its destination
  exists (in a directory), the call appends only the directory and existence checks to the
  log (no fetch), leaves the file system as it is, and returns \<open>(True, False)\<close>, unless
  standard output cannot encode the skip message, whose \<open>UnicodeEncodeError\<close> then leaves
  the call. When a first call fetched and wrote the page (\<open>(True, True)\<close>), a second call on
  the resulting world does the same, and the two calls made exactly one fetch.
\<close>

theorem materialize_resumable:
  assumes url: "game_info (str ''url'') = Some u"
  shows "(fs w (output_filepath upper base_dir (original_title game_info)) \<noteq> None
          \<and> fs w (output_dir upper base_dir (original_title game_info)) = Some Dir \<longrightarrow>
            fst (save_game_page_as_markdown upper env1 game_info base_dir w)
              = (if print_raises env1
                      (skipping_message (original_title game_info) u
                         (output_filepath upper base_dir (original_title game_info)))
                 then Inl UnicodeEncodeError else Inr (True, False))
            \<and> new_events w (snd (save_game_page_as_markdown upper env1 game_info base_dir w))
                = [MakeDirs (output_dir upper base_dir (original_title game_info)),
                   Exists (output_filepath upper base_dir (original_title game_info))]
            \<and> fs (snd (save_game_page_as_markdown upper env1 game_info base_dir w)) = fs w)
       \<and> (fst (save_game_page_as_markdown upper env1 game_info base_dir w) = Inr (True, True) \<longrightarrow>
            fst (save_game_page_as_markdown upper env2 game_info base_dir
                   (snd (save_game_page_as_markdown upper env1 game_info base_dir w)))
              = (if print_raises env2
                      (skipping_message (original_title game_info) u
                         (output_filepath upper base_dir (original_title game_info)))
                 then Inl UnicodeEncodeError else Inr (True, False))
            \<and> length (filter is_fetch
                 (new_events w
                    (snd (save_game_page_as_markdown upper env2 game_info base_dir
                       (snd (save_game_page_as_markdown upper env1 game_info base_dir w)))))) = 1)"
proof (intro conjI impI)
  let ?D = "output_dir upper base_dir (original_title game_info)"
  let ?P = "output_filepath upper base_dir (original_title game_info)"
  let ?run1 = "save_game_page_as_markdown upper env1 game_info base_dir w"
  let ?skip = "\<lambda>env. if print_raises env (skipping_message (original_title game_info) u ?P)
                     then Inl UnicodeEncodeError else Inr (True, False)"
  {
    assume a: "fs w ?P \<noteq> None \<and> fs w ?D = Some Dir"
    then have ok: "makedirs_ok env1 w ?D" by (simp add: makedirs_ok_def)
    have idem: "(fs w)(?D \<mapsto> Dir) = fs w" using a by (simp add: fun_upd_idem)
    note r = save_when_exists[OF url ok]
    show "fst ?run1 = ?skip env1" using r a by simp
    show "new_events w (snd ?run1) = [MakeDirs ?D, Exists ?P]" using r a by simp
    show "fs (snd ?run1) = fs w" using r a idem by simp
  }
  {
    assume s: "fst ?run1 = Inr (True, True)"
    obtain w1 where run1: "?run1 = (Inr (True, True), w1)" using s by (cases ?run1) auto
    have w1: "\<exists>content. fs w1 = (fs w)(?D \<mapsto> Dir, ?P \<mapsto> File content)
                \<and> log w1 = log w @ [MakeDirs ?D, Exists ?P, Fetch u, Write ?P content]"
      using run1 url
      by (auto simp: world_defs Let_def fun_upd_idem
               split: option.splits node.splits sum.splits write_result.splits if_splits)
    then obtain content where fs1: "fs w1 = (fs w)(?D \<mapsto> Dir, ?P \<mapsto> File content)"
      and log1: "log w1 = log w @ [MakeDirs ?D, Exists ?P, Fetch u, Write ?P content]" by blast
    have neq: "?P \<noteq> ?D" by (rule output_filepath_neq_dir)
    have ok: "makedirs_ok env2 w1 ?D" using fs1 neq by (simp add: makedirs_ok_def)
    have ex: "fs w1 ?P \<noteq> None" using fs1 by simp
    note r = save_when_exists[OF url ok ex]
    show "fst (save_game_page_as_markdown upper env2 game_info base_dir (snd ?run1)) = ?skip env2"
      using r run1 by simp
    show "length (filter is_fetch (new_events w
            (snd (save_game_page_as_markdown upper env2 game_info base_dir (snd ?run1))))) = 1"
      using r run1 log1 by (simp add: new_events_def)
  }
qed

text \<open>
  C3 (destination independent of the page): take two entries with the same title, any two
  environments (any fetched page, any on-page heading, any write outcome) and any two
  worlds. Every existence test, write and removal of both calls is on the one path
  \<open>output_filepath upper base_dir title\<close>, a function of the output root and the title, and
  in neither call does a fetch come before the existence test.
\<close>

theorem destination_independent_of_page:
  assumes "original_title game_info1 = original_title game_info2"
  shows "set (file_paths (new_events w1
                (snd (save_game_page_as_markdown upper env1 game_info1 base_dir w1))))
           \<subseteq> {output_filepath upper base_dir (original_title game_info1)}
       \<and> set (file_paths (new_events w2
                (snd (save_game_page_as_markdown upper env2 game_info2 base_dir w2))))
           \<subseteq> {output_filepath upper base_dir (original_title game_info1)}
       \<and> \<not> fetch_before_check (new_events w1
                (snd (save_game_page_as_markdown upper env1 game_info1 base_dir w1)))
       \<and> \<not> fetch_before_check (new_events w2
                (snd (save_game_page_as_markdown upper env2 game_info2 base_dir w2)))"
proof -
  have a: "set (file_paths (new_events w (snd (save_game_page_as_markdown upper env g base_dir w))))
             \<subseteq> {output_filepath upper base_dir (original_title g)}" for env g w
    by (rule save_file_paths[OF surjective_pairing])
  have b: "\<not> fetch_before_check
             (new_events w (snd (save_game_page_as_markdown upper env g base_dir w)))" for env g w
    by (rule save_check_first[OF surjective_pairing])
  show ?thesis using assms a[of w1 env1 game_info1] a[of w2 env2 game_info2] b by simp
qed

lemma example_entry_url: "example_entry t (str ''url'') = Some (example_url t)"
  by (simp add: example_entry_def example_url_def str_def)

lemma example_entry_title: "original_title (example_entry t) = Some (str t)"
  by (simp add: example_entry_def original_title_def)

lemma example_env_simps:
  "get_page (example_env f wr) u = (case f of None \<Rightarrow> RequestError | Some tree \<Rightarrow> Fetched tree)"
  "print_raises (example_env f wr) t = False"
  "fetch_html (example_env None wr) u = Inr None"
  "fetch_html (example_env (Some tree) wr) u = Inr (Some tree)"
  "markdownify (example_env f wr) h = str ''Hello''"
  "mkdir_fails (example_env f wr) d = False"
  "write_outcome (example_env f wr) p c = wr"
  "remove_fails (example_env f wr) p = False"
  by (simp_all add: example_env_def print_raises_def fetch_html_def list_ex_iff)

lemma example_markdown: "markdown_of (example_env f wr) t (example_page h) = str ''Hello''"
  by (simp add: markdown_of_def content_elements_def example_page_def example_env_def)

lemma sanitize_Foo: "sanitize_filename (Some (str ''Foo'')) = str ''Foo''"
  by (simp add: sanitize_defs)

lemma sanitize_Bar: "sanitize_filename (Some (str ''Bar'')) = str ''Bar''"
  by (simp add: sanitize_defs)

lemma sanitize_Baz: "sanitize_filename (Some (str ''Baz'')) = str ''Baz''"
  by (simp add: sanitize_defs)

lemma dir_Foo: "output_dir upper_latin1 (str ''out'') (Some (str ''Foo'')) = str ''out/F''"
  by (simp add: output_dir_def target_subdir_def sanitize_Foo)
     (simp add: path_join_def str_def upper_latin1_def)

lemma dir_Bar: "output_dir upper_latin1 (str ''out'') (Some (str ''Bar'')) = str ''out/B''"
  by (simp add: output_dir_def target_subdir_def sanitize_Bar)
     (simp add: path_join_def str_def upper_latin1_def)

lemma dir_Baz: "output_dir upper_latin1 (str ''out'') (Some (str ''Baz'')) = str ''out/B''"
  by (simp add: output_dir_def target_subdir_def sanitize_Baz)
     (simp add: path_join_def str_def upper_latin1_def)

lemma path_Foo: "output_filepath upper_latin1 (str ''out'') (Some (str ''Foo'')) = str ''out/F/Foo.md''"
  by (simp add: output_filepath_def dir_Foo sanitize_Foo) (simp add: path_join_def str_def)

lemma path_Bar: "output_filepath upper_latin1 (str ''out'') (Some (str ''Bar'')) = str ''out/B/Bar.md''"
  by (simp add: output_filepath_def dir_Bar sanitize_Bar) (simp add: path_join_def str_def)

lemma path_Baz: "output_filepath upper_latin1 (str ''out'') (Some (str ''Baz'')) = str ''out/B/Baz.md''"
  by (simp add: output_filepath_def dir_Baz sanitize_Baz) (simp add: path_join_def str_def)

lemma example_paths_distinct:
  "str ''out/F'' \<noteq> str ''out/B''" "str ''out/F/Foo.md'' \<noteq> str ''out/B''"
  "str ''out/F'' \<noteq> str ''out/B/Bar.md''" "str ''out/F/Foo.md'' \<noteq> str ''out/B/Bar.md''"
  "str ''out/F'' \<noteq> str ''out/B/Baz.md''" "str ''out/F/Foo.md'' \<noteq> str ''out/B/Baz.md''"
  "str ''out/B'' \<noteq> str ''out/B/Baz.md''" "str ''out/B/Bar.md'' \<noteq> str ''out/B/Baz.md''"
  "str ''out/B'' \<noteq> str ''out/B/Bar.md''" "str ''out/F'' \<noteq> str ''out/F/Foo.md''"
  by (simp_all add: str_def)

lemmas example_paths_neq = example_paths_distinct example_paths_distinct[symmetric]

lemma empty_world_simps: "fs empty_world p = None" "log empty_world = []"
  by (simp_all add: empty_world_def)

lemma makedirs_ok_empty: "makedirs_ok (example_env f wr) empty_world d"
  by (simp add: makedirs_ok_def empty_world_simps example_env_simps)

lemma run_Foo_fetch_fails:
  "save_game_page_as_markdown upper_latin1 (example_env None wr) (example_entry ''Foo'')
     (str ''out'') empty_world
   = (Inr (False, True),
      \<lparr>fs = [str ''out/F'' \<mapsto> Dir],
       log = [MakeDirs (str ''out/F''), Exists (str ''out/F/Foo.md''), Fetch (example_url ''Foo'')]\<rparr>)"
  using save_when_fetch_fails[where game_info = "example_entry ''Foo''"
          and u = "example_url ''Foo''" and env = "example_env None wr" and w = empty_world
          and upper = upper_latin1 and base_dir = "str ''out''"]
  by (simp add: example_entry_url add: example_entry_title dir_Foo path_Foo makedirs_ok_empty empty_world_simps
        example_env_simps) (simp add: empty_world_def)

lemma run_Foo_again_fetch_fails:
  "save_game_page_as_markdown upper_latin1 (example_env None wr) (example_entry ''Foo'')
     (str ''out'')
     \<lparr>fs = [str ''out/F'' \<mapsto> Dir],
      log = [MakeDirs (str ''out/F''), Exists (str ''out/F/Foo.md''), Fetch (example_url ''Foo'')]\<rparr>
   = (Inr (False, True),
      \<lparr>fs = [str ''out/F'' \<mapsto> Dir],
       log = [MakeDirs (str ''out/F''), Exists (str ''out/F/Foo.md''), Fetch (example_url ''Foo''),
              MakeDirs (str ''out/F''), Exists (str ''out/F/Foo.md''), Fetch (example_url ''Foo'')]\<rparr>)"
  using save_when_fetch_fails[where game_info = "example_entry ''Foo''"
          and u = "example_url ''Foo''" and env = "example_env None wr"
          and w = "\<lparr>fs = [str ''out/F'' \<mapsto> Dir],
            log = [MakeDirs (str ''out/F''), Exists (str ''out/F/Foo.md''), Fetch (example_url ''Foo'')]\<rparr>"
          and upper = upper_latin1 and base_dir = "str ''out''"]
  by (simp add: example_entry_url add: example_entry_title dir_Foo path_Foo makedirs_ok_def example_paths_neq
        example_env_simps)

text \<open>
  C1 as stated fails: when the fetch of the first call fails, no file is written, the second
  call fetches again and returns \<open>(False, True)\<close>; the two calls made two fetches.
\<close>

theorem failed_fetch_is_repeated_counterexample:
  "fst (save_game_page_as_markdown upper_latin1 (example_env None WriteOk) (example_entry ''Foo'')
          (str ''out'')
          (snd (save_game_page_as_markdown upper_latin1 (example_env None WriteOk)
                  (example_entry ''Foo'') (str ''out'') empty_world)))
     = Inr (False, True)
   \<and> length (filter is_fetch
        (log (snd (save_game_page_as_markdown upper_latin1 (example_env None WriteOk)
                (example_entry ''Foo'') (str ''out'')
                (snd (save_game_page_as_markdown upper_latin1 (example_env None WriteOk)
                        (example_entry ''Foo'') (str ''out'') empty_world)))))) = 2"
  by (simp add: run_Foo_fetch_fails run_Foo_again_fetch_fails)

lemma run_example_fetched:
  assumes "makedirs_ok (example_env (Some (example_page h)) wr) w
             (output_dir upper_latin1 (str ''out'') (Some (str t)))"
      and "fs w (output_filepath upper_latin1 (str ''out'') (Some (str t))) = None"
  shows "save_game_page_as_markdown upper_latin1 (example_env (Some (example_page h)) wr)
           (example_entry t) (str ''out'') w =
     (let dir = output_dir upper_latin1 (str ''out'') (Some (str t));
          path = output_filepath upper_latin1 (str ''out'') (Some (str t));
          evs = [MakeDirs dir, Exists path, Fetch (example_url t), Write path (str ''Hello'')]
      in case wr of
           WriteOk \<Rightarrow>
             (Inr (True, True),
              w\<lparr>fs := (fs w)(dir \<mapsto> Dir, path \<mapsto> File (str ''Hello'')), log := log w @ evs\<rparr>)
         | WriteIOError left \<Rightarrow>
             (Inr (False, True),
              w\<lparr>fs := (fs w)(dir \<mapsto> Dir, path := None), log := log w @ evs @ [Remove path]\<rparr>)
         | WriteOtherError left \<Rightarrow>
             (Inr (False, True),
              w\<lparr>fs := (fs w)(dir \<mapsto> Dir, path := map_option File left), log := log w @ evs\<rparr>))"
  using assms save_when_fetched[where game_info = "example_entry t" and u = "example_url t"
          and env = "example_env (Some (example_page h)) wr" and w = w
          and upper = upper_latin1 and base_dir = "str ''out''" and tree = "example_page h"]
  by (cases wr)
     (simp_all add: example_entry_url example_entry_title example_env_simps example_markdown
        Let_def)

lemma run_example_exists:
  assumes "makedirs_ok env w (output_dir upper_latin1 (str ''out'') (Some (str t)))"
      and "fs w (output_filepath upper_latin1 (str ''out'') (Some (str t))) \<noteq> None"
      and "\<And>m. \<not> print_raises env m"
  shows "save_game_page_as_markdown upper_latin1 env (example_entry t) (str ''out'') w =
           (Inr (True, False),
            w\<lparr>fs := (fs w)(output_dir upper_latin1 (str ''out'') (Some (str t)) \<mapsto> Dir),
              log := log w @ [MakeDirs (output_dir upper_latin1 (str ''out'') (Some (str t))),
                              Exists (output_filepath upper_latin1 (str ''out'') (Some (str t)))]\<rparr>)"
  using assms save_when_exists[where game_info = "example_entry t" and u = "example_url t"
          and env = env and w = w and upper = upper_latin1 and base_dir = "str ''out''"]
  by (simp add: example_entry_url example_entry_title)

lemma run_Foo_written:
  "save_game_page_as_markdown upper_latin1 (example_env (Some (example_page h)) WriteOk)
     (example_entry ''Foo'') (str ''out'') empty_world
   = (Inr (True, True),
      \<lparr>fs = [str ''out/F'' \<mapsto> Dir, str ''out/F/Foo.md'' \<mapsto> File (str ''Hello'')],
       log = [MakeDirs (str ''out/F''), Exists (str ''out/F/Foo.md''),
              Fetch (example_url ''Foo''), Write (str ''out/F/Foo.md'') (str ''Hello'')]\<rparr>)"
  using run_example_fetched[of h WriteOk empty_world "''Foo''"]
  by (simp add: makedirs_ok_empty empty_world_simps dir_Foo path_Foo Let_def)
     (simp add: empty_world_def)

lemma run_Foo_again_exists:
  "save_game_page_as_markdown upper_latin1 (example_env f wr) (example_entry ''Foo'') (str ''out'')
     \<lparr>fs = [str ''out/F'' \<mapsto> Dir, str ''out/F/Foo.md'' \<mapsto> File c], log = evs\<rparr>
   = (Inr (True, False),
      \<lparr>fs = [str ''out/F'' \<mapsto> Dir, str ''out/F/Foo.md'' \<mapsto> File c],
       log = evs @ [MakeDirs (str ''out/F''), Exists (str ''out/F/Foo.md'')]\<rparr>)"
proof -
  have idem: "[str ''out/F'' \<mapsto> Dir, str ''out/F/Foo.md'' \<mapsto> File c](str ''out/F'' \<mapsto> Dir)
                = [str ''out/F'' \<mapsto> Dir, str ''out/F/Foo.md'' \<mapsto> File c]"
    by (rule fun_upd_idem) (simp add: example_paths_neq)
  show ?thesis
    using run_example_exists[of "example_env f wr"
            "\<lparr>fs = [str ''out/F'' \<mapsto> Dir, str ''out/F/Foo.md'' \<mapsto> File c], log = evs\<rparr>" "''Foo''"]
    by (simp add: makedirs_ok_def dir_Foo path_Foo example_paths_neq idem example_env_simps)
qed

text \<open>
  The entry \<open>Foo\<close> under \<open>out\<close>: once with \<open>out/F/Foo.md\<close> present, once from the empty
  world. Standard output encodes every character, so the skip message is printed.
\<close>

theorem materialize_resumable_witness:
  "example_entry ''Foo'' (str ''url'') = Some (example_url ''Foo'')
   \<and> fs (world_with_file ''out/F'' ''out/F/Foo.md'')
        (output_filepath upper_latin1 (str ''out'') (original_title (example_entry ''Foo''))) \<noteq> None
   \<and> fs (world_with_file ''out/F'' ''out/F/Foo.md'')
        (output_dir upper_latin1 (str ''out'') (original_title (example_entry ''Foo''))) = Some Dir
   \<and> fst (save_game_page_as_markdown upper_latin1 (example_env None WriteOk)
             (example_entry ''Foo'') (str ''out'') (world_with_file ''out/F'' ''out/F/Foo.md''))
        = Inr (True, False)
   \<and> new_events (world_with_file ''out/F'' ''out/F/Foo.md'')
        (snd (save_game_page_as_markdown upper_latin1 (example_env None WriteOk)
                (example_entry ''Foo'') (str ''out'') (world_with_file ''out/F'' ''out/F/Foo.md'')))
        = [MakeDirs (str ''out/F''), Exists (str ''out/F/Foo.md'')]
   \<and> fst (save_game_page_as_markdown upper_latin1 (example_env (Some (example_page ''Foo'')) WriteOk)
             (example_entry ''Foo'') (str ''out'') empty_world) = Inr (True, True)
   \<and> fst (save_game_page_as_markdown upper_latin1 (example_env None WriteOk)
             (example_entry ''Foo'') (str ''out'')
             (snd (save_game_page_as_markdown upper_latin1
                     (example_env (Some (example_page ''Foo'')) WriteOk)
                     (example_entry ''Foo'') (str ''out'') empty_world))) = Inr (True, False)
   \<and> length (filter is_fetch (new_events empty_world
        (snd (save_game_page_as_markdown upper_latin1 (example_env None WriteOk)
                (example_entry ''Foo'') (str ''out'')
                (snd (save_game_page_as_markdown upper_latin1
                        (example_env (Some (example_page ''Foo'')) WriteOk)
                        (example_entry ''Foo'') (str ''out'') empty_world)))))) = 1"
proof -
  let ?w = "world_with_file ''out/F'' ''out/F/Foo.md''"
  have url: "example_entry ''Foo'' (str ''url'') = Some (example_url ''Foo'')"
    by (rule example_entry_url)
  have p: "fs ?w (output_filepath upper_latin1 (str ''out'') (original_title (example_entry ''Foo'')))
             \<noteq> None"
    by (simp add: example_entry_title path_Foo world_with_file_def)
  have d: "fs ?w (output_dir upper_latin1 (str ''out'') (original_title (example_entry ''Foo'')))
             = Some Dir"
    by (simp add: example_entry_title dir_Foo world_with_file_def example_paths_neq)
  have first: "fst (save_game_page_as_markdown upper_latin1
                 (example_env (Some (example_page ''Foo'')) WriteOk)
                 (example_entry ''Foo'') (str ''out'') empty_world) = Inr (True, True)"
    by (simp add: run_Foo_written)
  note a = materialize_resumable[where game_info = "example_entry ''Foo''"
             and u = "example_url ''Foo''" and w = ?w and upper = upper_latin1
             and base_dir = "str ''out''" and ?env1.0 = "example_env None WriteOk", OF url]
  note b = materialize_resumable[where game_info = "example_entry ''Foo''"
             and u = "example_url ''Foo''" and w = empty_world and upper = upper_latin1
             and base_dir = "str ''out''"
             and ?env1.0 = "example_env (Some (example_page ''Foo'')) WriteOk"
             and ?env2.0 = "example_env None WriteOk", OF url]
  have "new_events ?w (snd (save_game_page_as_markdown upper_latin1 (example_env None WriteOk)
                (example_entry ''Foo'') (str ''out'') ?w))
        = [MakeDirs (str ''out/F''), Exists (str ''out/F/Foo.md'')]"
    using a p d by (simp add: example_entry_title dir_Foo path_Foo example_env_simps)
  then show ?thesis using url p d first a b by (simp add: example_env_simps)
qed

text \<open>
  Two entries titled \<open>Foo\<close> with different URLs; the fetched page has another heading.
\<close>

theorem destination_independent_of_page_witness:
  "original_title (example_entry ''Foo'') = original_title (example_entry_other_url ''Foo'')
   \<and> file_paths (new_events empty_world
         (snd (save_game_page_as_markdown upper_latin1
                 (example_env (Some (example_page ''Foo: Director's Cut'')) WriteOk)
                 (example_entry ''Foo'') (str ''out'') empty_world)))
       = [str ''out/F/Foo.md'', str ''out/F/Foo.md'']
   \<and> set (file_paths (new_events empty_world
         (snd (save_game_page_as_markdown upper_latin1
                 (example_env (Some (example_page ''Foo: Director's Cut'')) WriteOk)
                 (example_entry ''Foo'') (str ''out'') empty_world))))
       \<subseteq> {output_filepath upper_latin1 (str ''out'') (original_title (example_entry ''Foo''))}
   \<and> set (file_paths (new_events (world_with_file ''out/F'' ''out/F/Foo.md'')
         (snd (save_game_page_as_markdown upper_latin1 (example_env None WriteOk)
                 (example_entry_other_url ''Foo'') (str ''out'')
                 (world_with_file ''out/F'' ''out/F/Foo.md'')))))
       \<subseteq> {output_filepath upper_latin1 (str ''out'') (original_title (example_entry ''Foo''))}
   \<and> \<not> fetch_before_check (new_events empty_world
         (snd (save_game_page_as_markdown upper_latin1
                 (example_env (Some (example_page ''Foo: Director's Cut'')) WriteOk)
                 (example_entry ''Foo'') (str ''out'') empty_world)))
   \<and> \<not> fetch_before_check (new_events (world_with_file ''out/F'' ''out/F/Foo.md'')
         (snd (save_game_page_as_markdown upper_latin1 (example_env None WriteOk)
                 (example_entry_other_url ''Foo'') (str ''out'')
                 (world_with_file ''out/F'' ''out/F/Foo.md''))))"
proof -
  have h: "original_title (example_entry ''Foo'') = original_title (example_entry_other_url ''Foo'')"
    by (simp add: original_title_def example_entry_def example_entry_other_url_def)
  have e: "file_paths (new_events empty_world
         (snd (save_game_page_as_markdown upper_latin1
                 (example_env (Some (example_page ''Foo: Director's Cut'')) WriteOk)
                 (example_entry ''Foo'') (str ''out'') empty_world)))
       = [str ''out/F/Foo.md'', str ''out/F/Foo.md'']"
    by (simp add: run_Foo_written new_events_def empty_world_simps)
  show ?thesis
    using h e destination_independent_of_page[OF h, of empty_world upper_latin1
        "example_env (Some (example_page ''Foo: Director's Cut'')) WriteOk" "str ''out''"
        "world_with_file ''out/F'' ''out/F/Foo.md''" "example_env None WriteOk"]
    by blast
qed

text \<open>
  C5 (failure atomicity) is what the handler \<open>except IOError\<close> does and what the handler
  \<open>except Exception\<close> misses. The entry \<open>Foo\<close> from the empty world, the fetch succeeding:
  when the write raises an exception that is not an \<open>IOError\<close> and leaves the partial
  file \<open>Hel\<close>, the call returns \<open>(False, True)\<close>, its log holds no removal, the partial file
  stays at the destination, and the next call for the entry returns \<open>(True, False)\<close>: the
  entry counts as done. When the same write raises \<open>IOError\<close>, the log ends with the removal
  and no file stays.
\<close>

theorem unexpected_write_error_keeps_partial_file:
  "fst (save_game_page_as_markdown upper_latin1
          (example_env (Some (example_page ''Foo'')) (WriteOtherError (Some (str ''Hel''))))
          (example_entry ''Foo'') (str ''out'') empty_world) = Inr (False, True)
   \<and> log (snd (save_game_page_as_markdown upper_latin1
          (example_env (Some (example_page ''Foo'')) (WriteOtherError (Some (str ''Hel''))))
          (example_entry ''Foo'') (str ''out'') empty_world))
       = [MakeDirs (str ''out/F''), Exists (str ''out/F/Foo.md''), Fetch (example_url ''Foo''),
          Write (str ''out/F/Foo.md'') (str ''Hello'')]
   \<and> fs (snd (save_game_page_as_markdown upper_latin1
          (example_env (Some (example_page ''Foo'')) (WriteOtherError (Some (str ''Hel''))))
          (example_entry ''Foo'') (str ''out'') empty_world)) (str ''out/F/Foo.md'')
       = Some (File (str ''Hel''))
   \<and> fst (save_game_page_as_markdown upper_latin1
          (example_env (Some (example_page ''Foo'')) WriteOk) (example_entry ''Foo'') (str ''out'')
          (snd (save_game_page_as_markdown upper_latin1
                  (example_env (Some (example_page ''Foo'')) (WriteOtherError (Some (str ''Hel''))))
                  (example_entry ''Foo'') (str ''out'') empty_world))) = Inr (True, False)
   \<and> log (snd (save_game_page_as_markdown upper_latin1
          (example_env (Some (example_page ''Foo'')) (WriteIOError (Some (str ''Hel''))))
          (example_entry ''Foo'') (str ''out'') empty_world))
       = [MakeDirs (str ''out/F''), Exists (str ''out/F/Foo.md''), Fetch (example_url ''Foo''),
          Write (str ''out/F/Foo.md'') (str ''Hello''), Remove (str ''out/F/Foo.md'')]
   \<and> fs (snd (save_game_page_as_markdown upper_latin1
          (example_env (Some (example_page ''Foo'')) (WriteIOError (Some (str ''Hel''))))
          (example_entry ''Foo'') (str ''out'') empty_world)) (str ''out/F/Foo.md'') = None"
proof -
  let ?other = "save_game_page_as_markdown upper_latin1
          (example_env (Some (example_page ''Foo'')) (WriteOtherError (Some (str ''Hel''))))
          (example_entry ''Foo'') (str ''out'') empty_world"
  let ?io = "save_game_page_as_markdown upper_latin1
          (example_env (Some (example_page ''Foo'')) (WriteIOError (Some (str ''Hel''))))
          (example_entry ''Foo'') (str ''out'') empty_world"
  have e: "fs empty_world = Map.empty" by (simp add: empty_world_def)
  note o = run_example_fetched[of "''Foo''" "WriteOtherError (Some (str ''Hel''))" empty_world
             "''Foo''", OF makedirs_ok_empty empty_world_simps(1)]
  note i = run_example_fetched[of "''Foo''" "WriteIOError (Some (str ''Hel''))" empty_world
             "''Foo''", OF makedirs_ok_empty empty_world_simps(1)]
  have o1: "fst ?other = Inr (False, True)" by (simp add: o Let_def)
  have o2: "log (snd ?other)
       = [MakeDirs (str ''out/F''), Exists (str ''out/F/Foo.md''), Fetch (example_url ''Foo''),
          Write (str ''out/F/Foo.md'') (str ''Hello'')]"
    by (simp add: o Let_def dir_Foo path_Foo empty_world_simps)
  have o3: "fs (snd ?other)
       = [str ''out/F'' \<mapsto> Dir, str ''out/F/Foo.md'' \<mapsto> File (str ''Hel'')]"
    by (simp add: o Let_def dir_Foo path_Foo e)
  have o4: "snd ?other =
      \<lparr>fs = [str ''out/F'' \<mapsto> Dir, str ''out/F/Foo.md'' \<mapsto> File (str ''Hel'')],
       log = [MakeDirs (str ''out/F''), Exists (str ''out/F/Foo.md''),
              Fetch (example_url ''Foo''), Write (str ''out/F/Foo.md'') (str ''Hello'')]\<rparr>"
    by (rule world.equality) (simp_all add: o2 o3)
  have i2: "log (snd ?io)
       = [MakeDirs (str ''out/F''), Exists (str ''out/F/Foo.md''), Fetch (example_url ''Foo''),
          Write (str ''out/F/Foo.md'') (str ''Hello''), Remove (str ''out/F/Foo.md'')]"
    by (simp add: i Let_def dir_Foo path_Foo empty_world_simps)
  have i3: "fs (snd ?io) (str ''out/F/Foo.md'') = None"
    by (simp add: i Let_def dir_Foo path_Foo e)
  have again: "fst (save_game_page_as_markdown upper_latin1
          (example_env (Some (example_page ''Foo'')) WriteOk) (example_entry ''Foo'') (str ''out'')
          (snd ?other)) = Inr (True, False)"
    by (simp only: o4 run_Foo_again_exists fst_conv)
  show ?thesis using o1 o2 o3 i2 i3 again by simp
qed

section \<open>Properties of the loop of main\<close>

text \<open>
  C4 (rate limiter), as the code has it: in a run over three entries where the calls for
  entries 1 and 3 make a request and the call for entry 2 makes none, the loop sleeps
  exactly once, after entry 1: the events of the run are those of entry 1, one \<open>Sleep\<close>,
  those of entry 2 and those of entry 3, and no call adds a \<open>Sleep\<close> of its own. There is
  no sleep after entry 2 (no request) and none after entry 3 (the last entry).
\<close>

theorem rate_limiter_three_entries:
  assumes r1: "save_game_page_as_markdown upper (envs 0) g1 base_dir w = (Inr (s1, True), w1)"
      and r2: "save_game_page_as_markdown upper (envs 1) g2 base_dir (emit Sleep w1)
                 = (Inr (s2, False), w2)"
      and r3: "save_game_page_as_markdown upper (envs 2) g3 base_dir w2 = (Inr (s3, True), w3)"
  shows "snd (process_games upper envs base_dir [g1, g2, g3] w) = w3
       \<and> new_events w w3
           = new_events w w1 @ [Sleep] @ new_events (emit Sleep w1) w2 @ new_events w2 w3
       \<and> filter is_sleep (new_events w w1) = []
       \<and> filter is_sleep (new_events (emit Sleep w1) w2) = []
       \<and> filter is_sleep (new_events w2 w3) = []
       \<and> length (filter is_sleep (new_events w w3)) = 1"
proof -
  have r3': "save_game_page_as_markdown upper (envs (Suc (Suc 0))) g3 base_dir w2
               = (Inr (s3, True), w3)"
    using r3 by (simp add: numeral_2_eq_2)
  have run: "snd (process_games upper envs base_dir [g1, g2, g3] w) = w3"
    using r1 r2 r3' by (simp add: process_games_def Let_def)
  have l1: "log w1 = log w @ new_events w w1" by (rule save_log[OF r1])
  have l2: "log w2 = log (emit Sleep w1) @ new_events (emit Sleep w1) w2" by (rule save_log[OF r2])
  have l3: "log w3 = log w2 @ new_events w2 w3" by (rule save_log[OF r3])
  have "log w3 = log w @ (new_events w w1 @ [Sleep] @ new_events (emit Sleep w1) w2
                           @ new_events w2 w3)"
    using l1 l2 l3 by (simp add: emit_def)
  then have "drop (length (log w)) (log w3)
           = new_events w w1 @ [Sleep] @ new_events (emit Sleep w1) w2 @ new_events w2 w3"
    by (metis append_eq_conv_conj)
  then have ev: "new_events w w3
           = new_events w w1 @ [Sleep] @ new_events (emit Sleep w1) w2 @ new_events w2 w3"
    by (simp only: new_events_def[of w w3])
  note n1 = save_no_sleep[OF r1] and n2 = save_no_sleep[OF r2] and n3 = save_no_sleep[OF r3]
  have "length (filter is_sleep (new_events w w3)) = 1"
    by (simp add: ev n1 n2 n3)
  then show ?thesis using run ev n1 n2 n3 by blast
qed

lemma example_envs_eq: "example_envs i = example_env (Some (example_page ''Game'')) WriteOk"
  by (simp add: example_envs_def)

lemma run_Foo_in:
  assumes "fs w (str ''out/F'') = None" and "fs w (str ''out/F/Foo.md'') = None"
  shows "save_game_page_as_markdown upper_latin1 (example_envs i) (example_entry ''Foo'')
           (str ''out'') w
         = (Inr (True, True),
            w\<lparr>fs := (fs w)(str ''out/F'' \<mapsto> Dir, str ''out/F/Foo.md'' \<mapsto> File (str ''Hello'')),
              log := log w @ [MakeDirs (str ''out/F''), Exists (str ''out/F/Foo.md''),
                              Fetch (example_url ''Foo''),
                              Write (str ''out/F/Foo.md'') (str ''Hello'')]\<rparr>)"
  using assms run_example_fetched[of "''Game''" WriteOk w "''Foo''"]
  by (simp add: example_envs_eq makedirs_ok_def example_env_simps dir_Foo path_Foo Let_def)

lemma run_Bar_in:
  assumes "fs w (str ''out/B'') = Some Dir" and "fs w (str ''out/B/Bar.md'') = Some (File c)"
  shows "save_game_page_as_markdown upper_latin1 (example_envs i) (example_entry ''Bar'')
           (str ''out'') w
         = (Inr (True, False),
            w\<lparr>fs := (fs w)(str ''out/B'' \<mapsto> Dir),
              log := log w @ [MakeDirs (str ''out/B''), Exists (str ''out/B/Bar.md'')]\<rparr>)"
  using assms run_example_exists[of "example_envs i" w "''Bar''"]
  by (simp add: makedirs_ok_def dir_Bar path_Bar example_envs_eq example_env_simps)

lemma run_Baz_in:
  assumes "fs w (str ''out/B'') = Some Dir" and "fs w (str ''out/B/Baz.md'') = None"
  shows "save_game_page_as_markdown upper_latin1 (example_envs i) (example_entry ''Baz'')
           (str ''out'') w
         = (Inr (True, True),
            w\<lparr>fs := (fs w)(str ''out/B'' \<mapsto> Dir, str ''out/B/Baz.md'' \<mapsto> File (str ''Hello'')),
              log := log w @ [MakeDirs (str ''out/B''), Exists (str ''out/B/Baz.md''),
                              Fetch (example_url ''Baz''),
                              Write (str ''out/B/Baz.md'') (str ''Hello'')]\<rparr>)"
  using assms run_example_fetched[of "''Game''" WriteOk w "''Baz''"]
  by (simp add: example_envs_eq makedirs_ok_def example_env_simps dir_Baz path_Baz Let_def)

lemma example_run:
  "\<exists>w1 w2 w3.
     (\<forall>i. save_game_page_as_markdown upper_latin1 (example_envs i) (example_entry ''Foo'')
            (str ''out'') example_world0 = (Inr (True, True), w1))
   \<and> (\<forall>i. save_game_page_as_markdown upper_latin1 (example_envs i) (example_entry ''Bar'')
            (str ''out'') (emit Sleep w1) = (Inr (True, False), w2))
   \<and> (\<forall>i. save_game_page_as_markdown upper_latin1 (example_envs i) (example_entry ''Baz'')
            (str ''out'') w2 = (Inr (True, True), w3))
   \<and> log w3 = [MakeDirs (str ''out/F''), Exists (str ''out/F/Foo.md''),
               Fetch (example_url ''Foo''), Write (str ''out/F/Foo.md'') (str ''Hello''),
               Sleep,
               MakeDirs (str ''out/B''), Exists (str ''out/B/Bar.md''),
               MakeDirs (str ''out/B''), Exists (str ''out/B/Baz.md''),
               Fetch (example_url ''Baz''), Write (str ''out/B/Baz.md'') (str ''Hello'')]"
proof -
  define w1 where "w1 = example_world0
     \<lparr>fs := (fs example_world0)(str ''out/F'' \<mapsto> Dir, str ''out/F/Foo.md'' \<mapsto> File (str ''Hello'')),
      log := log example_world0 @ [MakeDirs (str ''out/F''), Exists (str ''out/F/Foo.md''),
                              Fetch (example_url ''Foo''),
                              Write (str ''out/F/Foo.md'') (str ''Hello'')]\<rparr>"
  define w2 where "w2 = (emit Sleep w1)
     \<lparr>fs := (fs (emit Sleep w1))(str ''out/B'' \<mapsto> Dir),
      log := log (emit Sleep w1) @ [MakeDirs (str ''out/B''), Exists (str ''out/B/Bar.md'')]\<rparr>"
  define w3 where "w3 = w2
     \<lparr>fs := (fs w2)(str ''out/B'' \<mapsto> Dir, str ''out/B/Baz.md'' \<mapsto> File (str ''Hello'')),
      log := log w2 @ [MakeDirs (str ''out/B''), Exists (str ''out/B/Baz.md''),
                       Fetch (example_url ''Baz''),
                       Write (str ''out/B/Baz.md'') (str ''Hello'')]\<rparr>"
  have fs0: "fs example_world0
               = [str ''out/B'' \<mapsto> Dir, str ''out/B/Bar.md'' \<mapsto> File (str ''old'')]"
    and log0: "log example_world0 = []"
    by (simp_all add: example_world0_def world_with_file_def)
  have s1: "save_game_page_as_markdown upper_latin1 (example_envs i) (example_entry ''Foo'')
              (str ''out'') example_world0 = (Inr (True, True), w1)" for i
    unfolding w1_def by (rule run_Foo_in) (simp_all add: fs0 example_paths_neq)
  have s2: "save_game_page_as_markdown upper_latin1 (example_envs i) (example_entry ''Bar'')
              (str ''out'') (emit Sleep w1) = (Inr (True, False), w2)" for i
    unfolding w2_def
    by (rule run_Bar_in[where c = "str ''old''"])
       (simp_all add: w1_def emit_def fs0 example_paths_neq)
  have s3: "save_game_page_as_markdown upper_latin1 (example_envs i) (example_entry ''Baz'')
              (str ''out'') w2 = (Inr (True, True), w3)" for i
    unfolding w3_def
    by (rule run_Baz_in) (simp_all add: w2_def w1_def emit_def fs0 example_paths_neq)
  have l: "log w3 = [MakeDirs (str ''out/F''), Exists (str ''out/F/Foo.md''),
               Fetch (example_url ''Foo''), Write (str ''out/F/Foo.md'') (str ''Hello''),
               Sleep,
               MakeDirs (str ''out/B''), Exists (str ''out/B/Bar.md''),
               MakeDirs (str ''out/B''), Exists (str ''out/B/Baz.md''),
               Fetch (example_url ''Baz''), Write (str ''out/B/Baz.md'') (str ''Hello'')]"
    by (simp add: w3_def w2_def w1_def emit_def log0)
  show ?thesis using s1 s2 s3 l by blast
qed

text \<open>
  C4 as stated fails: with the destination of entry 2 present, entries 1 and 3 are fetched
  and written, and the log of the run holds one \<open>Sleep\<close>, after entry 1, not two.
\<close>

theorem limiter_invoked_once_counterexample:
  "fs example_world0 (str ''out/B/Bar.md'') = Some (File (str ''old''))
   \<and> fst (process_games upper_latin1 example_envs (str ''out'')
         [example_entry ''Foo'', example_entry ''Bar'', example_entry ''Baz'']
         example_world0) = Inr (3, 0)
   \<and> log (snd (process_games upper_latin1 example_envs (str ''out'')
         [example_entry ''Foo'', example_entry ''Bar'', example_entry ''Baz'']
         example_world0))
       = [MakeDirs (str ''out/F''), Exists (str ''out/F/Foo.md''),
          Fetch (example_url ''Foo''), Write (str ''out/F/Foo.md'') (str ''Hello''),
          Sleep,
          MakeDirs (str ''out/B''), Exists (str ''out/B/Bar.md''),
          MakeDirs (str ''out/B''), Exists (str ''out/B/Baz.md''),
          Fetch (example_url ''Baz''), Write (str ''out/B/Baz.md'') (str ''Hello'')]
   \<and> length (filter is_sleep (log (snd (process_games upper_latin1 example_envs (str ''out'')
         [example_entry ''Foo'', example_entry ''Bar'', example_entry ''Baz'']
         example_world0)))) = 1"
proof -
  have a: "fs example_world0 (str ''out/B/Bar.md'') = Some (File (str ''old''))"
    by (simp add: example_world0_def world_with_file_def)
  from example_run obtain w1 w2 w3 where
    s: "\<And>i. save_game_page_as_markdown upper_latin1 (example_envs i) (example_entry ''Foo'')
            (str ''out'') example_world0 = (Inr (True, True), w1)"
       "\<And>i. save_game_page_as_markdown upper_latin1 (example_envs i) (example_entry ''Bar'')
            (str ''out'') (emit Sleep w1) = (Inr (True, False), w2)"
       "\<And>i. save_game_page_as_markdown upper_latin1 (example_envs i) (example_entry ''Baz'')
            (str ''out'') w2 = (Inr (True, True), w3)"
    and l: "log w3 = [MakeDirs (str ''out/F''), Exists (str ''out/F/Foo.md''),
               Fetch (example_url ''Foo''), Write (str ''out/F/Foo.md'') (str ''Hello''),
               Sleep,
               MakeDirs (str ''out/B''), Exists (str ''out/B/Bar.md''),
               MakeDirs (str ''out/B''), Exists (str ''out/B/Baz.md''),
               Fetch (example_url ''Baz''), Write (str ''out/B/Baz.md'') (str ''Hello'')]"
    by blast
  have b: "process_games upper_latin1 example_envs (str ''out'')
         [example_entry ''Foo'', example_entry ''Bar'', example_entry ''Baz'']
         example_world0 = (Inr (3, 0), w3)"
    by (simp add: process_games_def s Let_def)
  show ?thesis unfolding b using a l by simp
qed

text \<open>
  The entries \<open>Foo\<close>, \<open>Bar\<close>, \<open>Baz\<close>, with \<open>out/B/Bar.md\<close> present at the start.
\<close>

theorem rate_limiter_three_entries_witness:
  "save_game_page_as_markdown upper_latin1 (example_envs 0) (example_entry ''Foo'') (str ''out'')
     example_world0 = (Inr (True, True), example_world1)
   \<and> save_game_page_as_markdown upper_latin1 (example_envs 1) (example_entry ''Bar'') (str ''out'')
     (emit Sleep example_world1) = (Inr (True, False), example_world2)
   \<and> save_game_page_as_markdown upper_latin1 (example_envs 2) (example_entry ''Baz'') (str ''out'')
     example_world2 = (Inr (True, True), example_world3)
   \<and> snd (process_games upper_latin1 example_envs (str ''out'')
         [example_entry ''Foo'', example_entry ''Bar'', example_entry ''Baz'']
         example_world0) = example_world3
   \<and> length (filter is_sleep (new_events example_world0 example_world3)) = 1
   \<and> filter is_sleep (new_events example_world2 example_world3) = []"
proof -
  from example_run obtain w1 w2 w3 where
    s: "\<And>i. save_game_page_as_markdown upper_latin1 (example_envs i) (example_entry ''Foo'')
            (str ''out'') example_world0 = (Inr (True, True), w1)"
       "\<And>i. save_game_page_as_markdown upper_latin1 (example_envs i) (example_entry ''Bar'')
            (str ''out'') (emit Sleep w1) = (Inr (True, False), w2)"
       "\<And>i. save_game_page_as_markdown upper_latin1 (example_envs i) (example_entry ''Baz'')
            (str ''out'') w2 = (Inr (True, True), w3)"
    by blast
  have w1: "example_world1 = w1" by (simp add: example_world1_def s)
  have w2: "example_world2 = w2" by (simp add: example_world2_def w1 s)
  have w3: "example_world3 = w3" by (simp add: example_world3_def w2 s)
  have r1: "save_game_page_as_markdown upper_latin1 (example_envs 0) (example_entry ''Foo'')
              (str ''out'') example_world0 = (Inr (True, True), example_world1)"
    by (simp only: w1 s)
  have r2: "save_game_page_as_markdown upper_latin1 (example_envs 1) (example_entry ''Bar'')
              (str ''out'') (emit Sleep example_world1) = (Inr (True, False), example_world2)"
    by (simp only: w1 w2 s)
  have r3: "save_game_page_as_markdown upper_latin1 (example_envs 2) (example_entry ''Baz'')
              (str ''out'') example_world2 = (Inr (True, True), example_world3)"
    by (simp only: w2 w3 s)
  show ?thesis using r1 r2 r3 rate_limiter_three_entries[OF r1 r2 r3] by blast
qed

end
